theory Spec2Isabelle
  imports Main "HOL-Library.AList"
begin

section \<open>Data model of \<open>src/kafka-embedded.js\<close>\<close>

text \<open>
  The harness is a class \<open>KafkaManager\<close> whose methods return promises and talk to the
  operating system through four libraries (\<open>portfinder\<close>, \<open>tmp\<close>, \<open>properties-parser\<close>,
  \<open>child_process\<close>). A method is modelled as a function from the process state to the
  settled promise and the new state. What the operating system answers is a parameter
  (\<open>world\<close>); what the harness did to the outside is appended to \<open>trace\<close> in the order
  in which it happened. \<open>logDebug\<close> only writes to the console and never influences
  control flow; it is left out of the model.
\<close>

type_synonym port = nat
type_synonym path = string
type_synonym pid = nat
type_synonym ref = nat
type_synonym props = "(string \<times> string) list"

text \<open>
  The source defines no error classes: every \<open>reject(err)\<close> passes on the library's error
  object. The constructors name the library an error comes from (portfinder, tmp,
  properties-parser, exec, spawn) after the taxonomy of the specification, and carry the
  library's payload.
\<close>

text \<open>
  How a command run by \<open>exec\<close> ended: the shell's exit code or the signal that killed
  it, and the failure of \<open>exec\<close> itself if there was one (the output outgrew
  \<open>maxBuffer\<close>, the shell could not be started).
\<close>

datatype exec_status = Exited int | Signalled string

record exec_result =
  ex_status :: exec_status
  ex_failure :: "string option"

datatype error =
    PortAllocationError string
  | FilesystemError string
  | ConfigError string
  | StorageInitError exec_result
  | ProcessSpawnError string

text \<open>A promise observed at the end of the run: settled, or never settled (\<open>Pending\<close>).\<close>

datatype 'a promise = Resolved 'a | Rejected error | Pending

datatype signal = SIGKILL

datatype pstatus = Running | Dead | NotLaunched

text \<open>
  What \<open>spawn\<close> does with a command: the child runs; or it could not be launched and
  the child object emits \<open>error\<close> later (a missing or non-executable file); or \<open>spawn\<close>
  itself throws.
\<close>

datatype spawn_outcome = Launched | LaunchError string | SpawnThrows string

datatype stream = Stdout | Stderr

datatype event =
    GetPorts nat
  | GetPort
  | TmpDir string
  | CreateEditor path
  | Save path
  | Exec string
  | Spawn path "string list" "(string \<times> string) list" "path option"
  | Kill pid signal
  | ExitEvent pid
  | Timeout nat
  | UncaughtError pid

text \<open>
  The fields of a \<open>KafkaManager\<close> object. The internal buffer of the \<open>StringDecoder\<close> is a
  function of the chunks written to it, so the decoder is modelled by that history.
\<close>

record KafkaManager =
  decoder :: "string list"
  takenPorts :: "port list"

record PortPair =
  kafkaPort :: port
  controllerPort :: port

text \<open>
  The object resolved by \<open>startKafkaProcess\<close>: the field \<open>kafkaPort\<close> and the closure
  \<open>close\<close>, which captures \<open>this\<close> and \<open>kafkaProcess\<close>.
\<close>

record BrokerHandle =
  h_kafkaPort :: port
  h_this :: ref
  h_kafkaProcess :: pid

text \<open>
  The process state: the \<open>KafkaManager\<close> objects allocated so far (a reference is an index
  into \<open>heap\<close>), the module-level state of the libraries that the constructor writes, and
  the part of the operating system the harness touches.
\<close>

record state =
  heap :: "KafkaManager list"
  portfinder_basePort :: port
  tmp_gracefulCleanup :: bool
  console_overridden :: bool
  busy :: "port list"
  files :: "(path \<times> props) list"
  dirs :: "path list"
  procs :: "pstatus list"
  trace :: "event list"

text \<open>
  What the harness cannot decide: the platform, the two paths of \<open>CONFIG.PATHS\<close> the code
  uses (computed from \<open>__dirname\<close> when the module is loaded), \<open>process.env\<close>, the
  platform's \<open>path.join\<close>, and the outcome of each library call: the directory \<open>tmp\<close>
  creates, whether a file can be written, how a command run by \<open>exec\<close> ends, what
  \<open>spawn\<close> does with a script in a working directory, the exit code (\<open>null\<close> after a
  signal) of a script that ran, and the chunks a child writes while it starts.
\<close>

record world =
  IS_WINDOWS :: bool
  KAFKA_PROPERTIES :: path
  KAFKA_BIN :: path
  process_env :: "(string \<times> string) list"
  path_join :: "path list \<Rightarrow> path"
  tmp_dir :: "nat \<Rightarrow> string \<Rightarrow> string + path"
  fs_writable :: "path \<Rightarrow> bool"
  exec_run :: "string \<Rightarrow> exec_result"
  spawn_result :: "path \<Rightarrow> path option \<Rightarrow> spawn_outcome"
  script_exit :: "path \<Rightarrow> int option"
  child_output :: "path \<Rightarrow> (stream \<times> string) list"

definition BASE_PORT :: port where
  "BASE_PORT = 18000"

definition WAIT_TIME :: nat where
  "WAIT_TIME = 10000"

section \<open>Library functions\<close>

text \<open>
  \<open>path.join\<close> is the world's. On a POSIX host it is \<open>path.posix.join\<close>: the non-empty
  arguments joined by \<open>/\<close> and normalised, where normalising drops empty and \<open>.\<close>
  segments, lets \<open>..\<close> remove the segment before it (or stay, above the start of a
  relative path) and keeps a leading and a trailing \<open>/\<close>.
\<close>

fun split_on :: "char \<Rightarrow> string \<Rightarrow> string list" where
  "split_on c [] = [[]]"
| "split_on c (x # xs) =
     (if x = c then [] # split_on c xs
      else (case split_on c xs of
              [] \<Rightarrow> [[x]]
            | seg # segs \<Rightarrow> (x # seg) # segs))"

fun join_with :: "string \<Rightarrow> string list \<Rightarrow> string" where
  "join_with sep [] = []"
| "join_with sep [x] = x"
| "join_with sep (x # y # ys) = x @ sep @ join_with sep (y # ys)"

text \<open>One round of \<open>normalizeString\<close>; the segments kept so far are held last first.\<close>

definition normalize_step :: "bool \<Rightarrow> string list \<Rightarrow> string \<Rightarrow> string list" where
  "normalize_step allowAboveRoot res seg =
     (if seg = [] \<or> seg = ''.'' then res
      else if seg = ''..'' then
        (case res of
           [] \<Rightarrow> if allowAboveRoot then [''..''] else []
         | l # rest \<Rightarrow>
             if l \<noteq> ''..'' then rest
             else if allowAboveRoot then ''..'' # res else res)
      else seg # res)"

definition normalizeString :: "string \<Rightarrow> bool \<Rightarrow> string" where
  "normalizeString p allowAboveRoot =
     join_with ''/'' (rev (foldl (normalize_step allowAboveRoot) [] (split_on CHR ''/'' p)))"

definition posix_normalize :: "path \<Rightarrow> path" where
  "posix_normalize p =
     (if p = [] then ''.''
      else
        (let isAbsolute = (hd p = CHR ''/'');
             trailingSeparator = (last p = CHR ''/'');
             q = normalizeString p (\<not> isAbsolute)
         in if q = [] then (if isAbsolute then ''/'' else if trailingSeparator then ''./'' else ''.'')
            else (if isAbsolute then ''/'' else []) @ q @ (if trailingSeparator then ''/'' else [])))"

definition posix_join :: "path list \<Rightarrow> path" where
  "posix_join args =
     (let joined = join_with ''/'' (filter (\<lambda>a. a \<noteq> []) args)
      in if joined = [] then ''.'' else posix_normalize joined)"

text \<open>A number inside a template literal: its decimal digits.\<close>

definition digit_char :: "nat \<Rightarrow> char" where
  "digit_char d = ''0123456789'' ! d"

fun show_nat :: "nat \<Rightarrow> string" where
  "show_nat n =
     (if n < 10 then [digit_char n]
      else show_nat (n div 10) @ [digit_char (n mod 10)])"

declare show_nat.simps [simp del]

text \<open>
  Modelled from the spec: portfinder is a dependency whose code is not part of the
  sources. "Ports are obtained by scanning upward from a fixed base number; a port is
  accepted only if it is currently bindable." \<open>getPort\<close> scans from \<open>portfinder.basePort\<close>
  up to the highest TCP port and fails when none is free; \<open>getPorts\<close> repeats the scan,
  each time starting one above the port found last.
\<close>

definition highestPort :: port where
  "highestPort = 65535"

definition bindable :: "state \<Rightarrow> port \<Rightarrow> bool" where
  "bindable s p = (p \<notin> set (busy s))"

function portfinder_scan :: "state \<Rightarrow> port \<Rightarrow> port option" where
  "portfinder_scan s p =
     (if highestPort < p then None
      else if bindable s p then Some p
      else portfinder_scan s (Suc p))"
  by pat_completeness auto
termination
  by (relation "measure (\<lambda>(s, p). Suc highestPort - p)") auto

declare portfinder_scan.simps [simp del]

definition portfinder_getPort :: "state \<Rightarrow> error + port" where
  "portfinder_getPort s =
     (case portfinder_scan s (portfinder_basePort s) of
        None \<Rightarrow> Inl (PortAllocationError ''No open ports available'')
      | Some p \<Rightarrow> Inr p)"

fun portfinder_scan_many :: "state \<Rightarrow> nat \<Rightarrow> port \<Rightarrow> port list option" where
  "portfinder_scan_many s 0 p = Some []"
| "portfinder_scan_many s (Suc n) p =
     (case portfinder_scan s p of
        None \<Rightarrow> None
      | Some q \<Rightarrow>
          (case portfinder_scan_many s n (Suc q) of
             None \<Rightarrow> None
           | Some qs \<Rightarrow> Some (q # qs)))"

definition portfinder_getPorts :: "state \<Rightarrow> nat \<Rightarrow> error + port list" where
  "portfinder_getPorts s count =
     (case portfinder_scan_many s count (portfinder_basePort s) of
        None \<Rightarrow> Inl (PortAllocationError ''No open ports available'')
      | Some ports \<Rightarrow> Inr ports)"

text \<open>
  Modelled from the spec: properties-parser is a dependency whose code is not part of the
  sources. The editor holds "a key/value property set"; \<open>set\<close> overwrites the value of a
  key that is present, in place, and appends a key that is not; \<open>createEditor\<close> fails when
  the file cannot be read; \<open>save\<close> writes the set to the given path and hands the outcome
  of the write to its callback.
\<close>

definition createEditor :: "state \<Rightarrow> path \<Rightarrow> error + props" where
  "createEditor s p =
     (case map_of (files s) p of
        None \<Rightarrow> Inl (ConfigError p)
      | Some ps \<Rightarrow> Inr ps)"

definition editor_set :: "string \<Rightarrow> string \<Rightarrow> props \<Rightarrow> props" where
  "editor_set key v ps = AList.update key v ps"

definition editor_save :: "world \<Rightarrow> path \<Rightarrow> props \<Rightarrow> state \<Rightarrow> error option \<times> state" where
  "editor_save w p ps s =
     (let s1 = s\<lparr>trace := trace s @ [Save p]\<rparr> in
      if fs_writable w p then (None, s1\<lparr>files := AList.update p ps (files s1)\<rparr>)
      else (Some (ConfigError p), s1))"

section \<open>Promises\<close>

text \<open>
  \<open>await\<close> and \<open>.then\<close>: the continuation runs once the promise has resolved; a rejection
  passes through; behind a promise that never settles nothing runs.
\<close>

type_synonym 'a async = "state \<Rightarrow> 'a promise \<times> state"

definition await_then :: "'a async \<Rightarrow> ('a \<Rightarrow> 'b async) \<Rightarrow> 'b async" where
  "await_then m f s =
     (case m s of
        (Resolved x, s1) \<Rightarrow> f x s1
      | (Rejected e, s1) \<Rightarrow> (Rejected e, s1)
      | (Pending, s1) \<Rightarrow> (Pending, s1))"

definition try_catch :: "'a async \<Rightarrow> (error \<Rightarrow> 'a async) \<Rightarrow> 'a async" where
  "try_catch m handler s =
     (case m s of
        (Rejected e, s1) \<Rightarrow> handler e s1
      | (r, s1) \<Rightarrow> (r, s1))"

definition throw :: "error \<Rightarrow> 'a async" where
  "throw e s = (Rejected e, s)"

section \<open>The class \<open>KafkaManager\<close>\<close>

definition new_KafkaManager :: "state \<Rightarrow> ref \<times> state" where
  "new_KafkaManager s =
     (length (heap s),
      s\<lparr>heap := heap s @ [\<lparr>decoder = [], takenPorts = []\<rparr>],
        tmp_gracefulCleanup := True,
        portfinder_basePort := BASE_PORT,
        console_overridden := True\<rparr>)"

text \<open>
  \<open>getPortRecursive\<close> asks portfinder again as long as the port it answers is in
  \<open>takenPorts\<close>. Nothing changes between two rounds but the trace, so the loop need not
  end: \<open>None\<close> is the promise that never settles.
\<close>

partial_function (option) getPortRecursive ::
    "ref \<Rightarrow> state \<Rightarrow> ((error + port) \<times> state) option" where
  "getPortRecursive this s =
     (let s1 = s\<lparr>trace := trace s @ [GetPort]\<rparr> in
      case portfinder_getPort s of
        Inl err \<Rightarrow> Some (Inl err, s1)
      | Inr port \<Rightarrow>
          if port \<in> set (takenPorts (heap s ! this)) then getPortRecursive this s1
          else Some (Inr port, s1))"

definition getAvailablePort :: "ref \<Rightarrow> state \<Rightarrow> (port promise \<times> state) option" where
  "getAvailablePort this s =
     (case getPortRecursive this s of
        None \<Rightarrow> None
      | Some (Inl err, s1) \<Rightarrow> Some (Rejected err, s1)
      | Some (Inr port, s1) \<Rightarrow> Some (Resolved port, s1))"

definition allocatePorts :: "world \<Rightarrow> ref \<Rightarrow> PortPair async" where
  "allocatePorts w this s =
     (let s1 = s\<lparr>trace := trace s @ [GetPorts 2]\<rparr> in
      case portfinder_getPorts s 2 of
        Inl err \<Rightarrow> (Rejected err, s1)
      | Inr ports \<Rightarrow>
          (Resolved \<lparr>kafkaPort = ports ! 0, controllerPort = ports ! 1\<rparr>, s1))"

definition createTempDirectory :: "world \<Rightarrow> ref \<Rightarrow> string \<Rightarrow> path async" where
  "createTempDirectory w this prefix s =
     (let s1 = s\<lparr>trace := trace s @ [TmpDir prefix]\<rparr> in
      case tmp_dir w (length (dirs s)) prefix of
        Inl err \<Rightarrow> (Rejected (FilesystemError err), s1)
      | Inr p \<Rightarrow> (Resolved p, s1\<lparr>dirs := dirs s1 @ [p]\<rparr>))"

definition kafka_script :: "world \<Rightarrow> string \<Rightarrow> string \<Rightarrow> path" where
  "kafka_script w bat sh =
     (if IS_WINDOWS w then path_join w [KAFKA_BIN w, ''windows'', bat]
      else path_join w [KAFKA_BIN w, sh])"

definition start_script :: "world \<Rightarrow> path" where
  "start_script w = kafka_script w ''kafka-server-start.bat'' ''kafka-server-start.sh''"

definition stop_script :: "world \<Rightarrow> path" where
  "stop_script w = kafka_script w ''kafka-server-stop.bat'' ''kafka-server-stop.sh''"

definition storage_script :: "world \<Rightarrow> path" where
  "storage_script w = kafka_script w ''kafka-storage.bat'' ''kafka-storage.sh''"

definition storage_command :: "path \<Rightarrow> path \<Rightarrow> string" where
  "storage_command scriptPath propertiesFile =
     scriptPath @ '' format -t '' @ [CHR 0x22] @ ''$('' @ scriptPath @ '' random-uuid)''
       @ [CHR 0x22] @ '' -c '' @ propertiesFile @ '' --standalone''"

text \<open>
  \<open>exec\<close> calls back with \<open>null\<close> for the error when the command exited with code 0 and
  \<open>exec\<close> itself did not fail, and with an error object otherwise. The callback of
  \<open>initializeStorage\<close> rejects with whatever error it is given and only logs \<open>stdout\<close> and
  \<open>stderr\<close>.
\<close>

definition exec_error :: "exec_result \<Rightarrow> error option" where
  "exec_error r =
     (if ex_failure r = None \<and> ex_status r = Exited 0 then None
      else Some (StorageInitError r))"

definition initializeStorage :: "world \<Rightarrow> ref \<Rightarrow> path \<Rightarrow> unit async" where
  "initializeStorage w this propertiesFile s =
     (let scriptPath = storage_script w;
          command = storage_command scriptPath propertiesFile;
          s1 = s\<lparr>trace := trace s @ [Exec command]\<rparr> in
      case exec_error (exec_run w command) of
        Some error \<Rightarrow> (Rejected error, s1)
      | None \<Rightarrow> (Resolved (), s1))"

definition escape_backslashes :: "string \<Rightarrow> string" where
  "escape_backslashes d =
     concat (map (\<lambda>c. if c = CHR 0x5C then [CHR 0x5C, CHR 0x5C] else [c]) d)"

definition listeners_value :: "port \<Rightarrow> port \<Rightarrow> string" where
  "listeners_value kPort cPort =
     ''PLAINTEXT://localhost:'' @ show_nat kPort @ '',CONTROLLER://localhost:'' @ show_nat cPort"

text \<open>
  The callback given to \<open>props.save\<close> takes no argument: the outcome of the write is
  dropped and the promise resolves with the file name in either case.
\<close>

definition createKafkaConfig :: "world \<Rightarrow> ref \<Rightarrow> path \<Rightarrow> port \<Rightarrow> port \<Rightarrow> path async" where
  "createKafkaConfig w this kafkaDir cPort kPort s =
     (let s1 = s\<lparr>trace := trace s @ [CreateEditor (KAFKA_PROPERTIES w)]\<rparr> in
      case createEditor s (KAFKA_PROPERTIES w) of
        Inl err \<Rightarrow> (Rejected err, s1)
      | Inr props0 \<Rightarrow>
          (let logDir = escape_backslashes kafkaDir;
               props1 = editor_set ''log.dirs'' logDir props0;
               props2 = editor_set ''controller.quorum.bootstrap.servers''
                          (''localhost:'' @ show_nat cPort) props1;
               props3 = editor_set ''listeners'' (listeners_value kPort cPort) props2;
               props4 = editor_set ''advertised.listeners'' (listeners_value kPort cPort) props3;
               props5 = editor_set ''controller.listener.names'' ''CONTROLLER'' props4;
               finalName = path_join w [kafkaDir, ''server.properties'']
           in (Resolved finalName, snd (editor_save w finalName props5 s1))))"

text \<open>
  \<open>killProcess\<close> registers its \<open>exit\<close> listener and sends \<open>SIGKILL\<close>. A running child dies
  and the listener resolves the promise; a child that has exited already, or was never
  launched, emits no \<open>exit\<close> event any more.
\<close>

definition killProcess :: "world \<Rightarrow> ref \<Rightarrow> pid \<Rightarrow> unit async" where
  "killProcess w this proc s =
     (let s1 = s\<lparr>trace := trace s @ [Kill proc SIGKILL]\<rparr> in
      if proc < length (procs s) \<and> procs s ! proc = Running
      then (Resolved (), s1\<lparr>procs := (procs s1)[proc := Dead],
                              trace := trace s1 @ [ExitEvent proc]\<rparr>)
      else (Pending, s1))"

text \<open>
  \<open>stopKafkaServer\<close> spawns the stop script with no arguments and no options and passes
  \<open>resolve\<close> as the \<open>exit\<close> listener, so the promise resolves with the script's exit
  code; a stop script that was launched runs to its end. A \<open>spawn\<close> that throws does so
  inside the promise's executor and rejects the promise. No \<open>error\<close> listener is
  registered: when the script cannot be launched the \<open>error\<close> event is uncaught and the
  promise stays pending.
\<close>

definition stopKafkaServer :: "world \<Rightarrow> ref \<Rightarrow> int option async" where
  "stopKafkaServer w this s =
     (let scriptPath = stop_script w;
          proc = length (procs s);
          s1 = s\<lparr>trace := trace s @ [Spawn scriptPath [] (process_env w) None]\<rparr> in
      case spawn_result w scriptPath None of
        SpawnThrows err \<Rightarrow> (Rejected (ProcessSpawnError err), s1)
      | LaunchError err \<Rightarrow>
          (Pending, s1\<lparr>procs := procs s1 @ [NotLaunched],
                        trace := trace s1 @ [UncaughtError proc]\<rparr>)
      | Launched \<Rightarrow>
          (Resolved (script_exit w scriptPath),
           s1\<lparr>procs := procs s1 @ [Dead], trace := trace s1 @ [ExitEvent proc]\<rparr>))"

definition decoder_write :: "ref \<Rightarrow> string \<Rightarrow> state \<Rightarrow> state" where
  "decoder_write this d s =
     s\<lparr>heap := (heap s)[this := (heap s ! this)\<lparr>decoder := decoder (heap s ! this) @ [d]\<rparr>]\<rparr>"

text \<open>The two \<open>data\<close> listeners of \<open>startKafkaProcess\<close>; both write to \<open>this.decoder\<close>.\<close>

fun on_data :: "ref \<Rightarrow> state \<Rightarrow> stream \<times> string \<Rightarrow> state" where
  "on_data this s (Stdout, d) = decoder_write this d s"
| "on_data this s (Stderr, d) = decoder_write this d s"

text \<open>
  \<open>startKafkaProcess\<close>: the promise's executor takes \<open>resolve\<close> only. \<open>spawn\<close> is called
  inside the executor, so a \<open>spawn\<close> that throws rejects the promise there and then: no
  listener is registered and no timer set. Otherwise the \<open>error\<close> listener of the child
  logs and does nothing else, so whether or not the binary could be launched the timer
  resolves the promise after \<open>WAIT_TIME\<close>. The chunks the child writes while the timer
  runs go through the \<open>data\<close> listeners. What a launched child does later belongs to
  the environment: a state in which it has exited by itself is, for \<open>close\<close>, a state like
  any other.
\<close>

definition startKafkaProcess :: "world \<Rightarrow> ref \<Rightarrow> path \<Rightarrow> port \<Rightarrow> BrokerHandle async" where
  "startKafkaProcess w this kafkaDir kPort s =
     (let scriptPath = start_script w;
          propertiesFile = path_join w [kafkaDir, ''server.properties''];
          kafkaProcess = length (procs s);
          s0 = s\<lparr>trace := trace s @ [Spawn scriptPath [propertiesFile]
                            (AList.update ''JMX_PORT'' '''' (process_env w)) (Some kafkaDir)]\<rparr>
      in case spawn_result w scriptPath (Some kafkaDir) of
           SpawnThrows err \<Rightarrow> (Rejected (ProcessSpawnError err), s0)
         | outcome \<Rightarrow>
             (let s1 = s0\<lparr>procs := procs s0 @
                          [if outcome = Launched then Running else NotLaunched]\<rparr>;
                  s2 = (if outcome = Launched
                        then foldl (on_data this) s1 (child_output w scriptPath) else s1);
                  s3 = s2\<lparr>trace := trace s2 @ [Timeout WAIT_TIME]\<rparr>
              in (Resolved \<lparr>h_kafkaPort = kPort, h_this = this,
                             h_kafkaProcess = kafkaProcess\<rparr>, s3)))"

text \<open>The closure \<open>close\<close> of the handle.\<close>

definition close :: "world \<Rightarrow> BrokerHandle \<Rightarrow> int option async" where
  "close w h =
     await_then (killProcess w (h_this h) (h_kafkaProcess h))
       (\<lambda>_. stopKafkaServer w (h_this h))"

definition startKafkaServer :: "world \<Rightarrow> ref \<Rightarrow> BrokerHandle async" where
  "startKafkaServer w this =
     try_catch
       (await_then (allocatePorts w this) (\<lambda>ports.
        await_then (createTempDirectory w this ''kafka-'') (\<lambda>kafkaDir.
        await_then (createKafkaConfig w this kafkaDir (controllerPort ports) (kafkaPort ports))
          (\<lambda>propertiesFile.
        await_then (initializeStorage w this propertiesFile) (\<lambda>_.
        startKafkaProcess w this kafkaDir (kafkaPort ports))))))
       (\<lambda>error. throw error)"

definition makeKafkaServer :: "world \<Rightarrow> BrokerHandle async" where
  "makeKafkaServer w s =
     (case new_KafkaManager s of (this, s1) \<Rightarrow> startKafkaServer w this s1)"

section \<open>Names used in the statements\<close>

text \<open>The five keys that \<open>createKafkaConfig\<close> sets, in the order of the source.\<close>

definition overridden_keys :: "string list" where
  "overridden_keys =
     [''log.dirs'', ''controller.quorum.bootstrap.servers'', ''listeners'',
      ''advertised.listeners'', ''controller.listener.names'']"

text \<open>
  What it is for a string to be the decimal numeral of a number, said without
  \<open>show_nat\<close>: it is not empty, holds digits only, starts with \<open>0\<close> only if it is
  \<open>0\<close>, and read from the left, ten times what was read plus the next digit, gives
  the number.
\<close>

definition digit_value :: "char \<Rightarrow> nat" where
  "digit_value c = length (takeWhile (\<lambda>d. d \<noteq> c) ''0123456789'')"

definition read_nat :: "string \<Rightarrow> nat" where
  "read_nat str = foldl (\<lambda>n c. 10 * n + digit_value c) 0 str"

definition is_decimal_of :: "string \<Rightarrow> nat \<Rightarrow> bool" where
  "is_decimal_of str n =
     (str \<noteq> [] \<and> set str \<subseteq> set ''0123456789''
      \<and> (hd str = CHR ''0'' \<longrightarrow> str = ''0'') \<and> read_nat str = n)"

text \<open>
  A path as \<open>tmp\<close> hands it out on a POSIX host: absolute, at least one segment, no
  empty, \<open>.\<close> or \<open>..\<close> segment and no \<open>/\<close> at the end.
\<close>

definition plain_segment :: "string \<Rightarrow> bool" where
  "plain_segment seg = (seg \<noteq> [] \<and> seg \<noteq> ''.'' \<and> seg \<noteq> ''..'' \<and> CHR ''/'' \<notin> set seg)"

definition normalised_absolute :: "path \<Rightarrow> bool" where
  "normalised_absolute p =
     (case split_on CHR ''/'' p of
        [] \<Rightarrow> False
      | first # segs \<Rightarrow> first = [] \<and> segs \<noteq> [] \<and> list_all plain_segment segs)"

text \<open>A child process that is running: the one a kill signal makes exit.\<close>

definition live :: "state \<Rightarrow> pid \<Rightarrow> bool" where
  "live s p = (p < length (procs s) \<and> procs s ! p = Running)"

section \<open>A concrete run\<close>

text \<open>
  A POSIX host on which ports 18000 and 18002 are taken, the template holds three keys,
  every library call succeeds and nothing has been constructed yet; \<open>state1\<close> is the
  state right after \<open>new KafkaManager()\<close>.
\<close>

definition world0 :: world where
  "world0 =
     \<lparr>IS_WINDOWS = False,
      KAFKA_PROPERTIES = ''/k/config/server.properties'',
      KAFKA_BIN = ''/k/bin'',
      process_env = [(''JMX_PORT'', ''9999''), (''HOME'', ''/root'')],
      path_join = posix_join,
      tmp_dir = (\<lambda>n prefix. Inr (''/tmp/'' @ prefix @ show_nat n)),
      fs_writable = (\<lambda>p. True),
      exec_run = (\<lambda>c. \<lparr>ex_status = Exited 0, ex_failure = None\<rparr>),
      spawn_result = (\<lambda>p cwd. Launched),
      script_exit = (\<lambda>p. Some 0),
      child_output = (\<lambda>p. [(Stdout, ''up'')])\<rparr>"

definition state0 :: state where
  "state0 =
     \<lparr>heap = [],
      portfinder_basePort = 8000,
      tmp_gracefulCleanup = False,
      console_overridden = False,
      busy = [18000, 18002],
      files = [(''/k/config/server.properties'',
                [(''node.id'', ''1''), (''log.dirs'', ''/tmp/kraft-combined-logs''),
                 (''num.partitions'', ''1'')])],
      dirs = [],
      procs = [],
      trace = []\<rparr>"

definition state1 :: state where
  "state1 = snd (new_KafkaManager state0)"

text \<open>Variants of the run in which one step fails, and the handle of the run.\<close>

definition world_no_launch :: world where
  "world_no_launch = world0\<lparr>spawn_result := (\<lambda>p cwd. LaunchError ''ENOENT'')\<rparr>"

definition world_spawn_throws :: world where
  "world_spawn_throws = world0\<lparr>spawn_result := (\<lambda>p cwd. SpawnThrows ''ELOOP'')\<rparr>"

definition world_no_write :: world where
  "world_no_write = world0\<lparr>fs_writable := (\<lambda>p. False)\<rparr>"

definition world_exec_fails :: world where
  "world_exec_fails = world0\<lparr>exec_run := (\<lambda>c. \<lparr>ex_status = Exited 1, ex_failure = None\<rparr>)\<rparr>"

definition world_exec_overflow :: world where
  "world_exec_overflow =
     world0\<lparr>exec_run := (\<lambda>c. \<lparr>ex_status = Exited 0, ex_failure = Some ''maxBuffer''\<rparr>)\<rparr>"

definition world_no_tmp :: world where
  "world_no_tmp = world0\<lparr>tmp_dir := (\<lambda>n prefix. Inl ''EACCES'')\<rparr>"

definition ports_from_base :: "port list" where
  "ports_from_base = [18000 ..< 65536]"

definition state_no_ports :: state where
  "state_no_ports = state0\<lparr>busy := ports_from_base\<rparr>"

definition state_no_template :: state where
  "state_no_template = state0\<lparr>files := []\<rparr>"

definition handle0 :: BrokerHandle where
  "handle0 = \<lparr>h_kafkaPort = 18001, h_this = 0, h_kafkaProcess = 0\<rparr>"

definition state_live :: state where
  "state_live = snd (startKafkaProcess world0 0 ''/tmp/kafka-0'' 18001 state1)"

section \<open>Port allocation\<close>

lemma portfinder_scan_Some:
  "portfinder_scan s p = Some q \<Longrightarrow> p \<le> q \<and> q \<le> highestPort \<and> bindable s q"
proof (induction s p rule: portfinder_scan.induct)
  case (1 s p)
  show ?case
  proof (cases "highestPort < p")
    case True
    with "1.prems" show ?thesis by (simp add: portfinder_scan.simps)
  next
    case False
    show ?thesis
    proof (cases "bindable s p")
      case True
      with False "1.prems" show ?thesis by (simp add: portfinder_scan.simps)
    next
      case nb: False
      with False "1.prems" have "portfinder_scan s (Suc p) = Some q"
        by (simp add: portfinder_scan.simps)
      with "1.IH" False nb show ?thesis by fastforce
    qed
  qed
qed

lemma portfinder_scan_None:
  "\<forall>q. p \<le> q \<and> q \<le> highestPort \<longrightarrow> \<not> bindable s q \<Longrightarrow> portfinder_scan s p = None"
proof (induction s p rule: portfinder_scan.induct)
  case (1 s p)
  show ?case
  proof (cases "highestPort < p")
    case True
    then show ?thesis by (simp add: portfinder_scan.simps)
  next
    case False
    with "1.prems" have nb: "\<not> bindable s p" by simp
    from "1.prems" have "\<forall>q. Suc p \<le> q \<and> q \<le> highestPort \<longrightarrow> \<not> bindable s q" by simp
    with "1.IH" False nb have "portfinder_scan s (Suc p) = None" by blast
    with False nb show ?thesis by (simp add: portfinder_scan.simps)
  qed
qed

lemma portfinder_scan_many_two:
  assumes "portfinder_scan_many s 2 p = Some qs"
  shows "length qs = 2 \<and> qs ! 0 < qs ! 1 \<and> bindable s (qs ! 0) \<and> bindable s (qs ! 1)"
proof -
  from assms obtain a b where a: "portfinder_scan s p = Some a"
    and b: "portfinder_scan s (Suc a) = Some b" and qs: "qs = [a, b]"
    by (auto simp: numeral_2_eq_2 split: option.splits)
  from portfinder_scan_Some [OF a] portfinder_scan_Some [OF b] qs show ?thesis by simp
qed

lemma allocatePorts_Resolved:
  assumes "allocatePorts w this s = (Resolved pp, s')"
  shows "kafkaPort pp < controllerPort pp \<and> bindable s (kafkaPort pp) \<and> bindable s (controllerPort pp)"
proof -
  from assms obtain ports where p: "portfinder_scan_many s 2 (portfinder_basePort s) = Some ports"
    and pp: "pp = \<lparr>kafkaPort = ports ! 0, controllerPort = ports ! 1\<rparr>"
    by (auto simp: allocatePorts_def portfinder_getPorts_def Let_def split: option.splits sum.splits)
  from portfinder_scan_many_two [OF p] pp show ?thesis by simp
qed

lemma getPortRecursive_accepts:
  assumes "getPortRecursive this s = Some y"
  shows "\<forall>p s'. y = (Inr p, s') \<longrightarrow>
           bindable s p \<and> p \<notin> set (takenPorts (heap s ! this))"
  using assms
proof (induction rule: getPortRecursive.raw_induct [rotated, consumes 1, case_names step])
  case (step f this s y)
  show ?case
  proof (cases "portfinder_getPort s")
    case (Inl err)
    with step(2) show ?thesis by (auto simp: Let_def)
  next
    case (Inr port)
    have b: "bindable s port"
      using Inr portfinder_scan_Some [of s "portfinder_basePort s" port]
      by (auto simp: portfinder_getPort_def split: option.splits)
    show ?thesis
    proof (cases "port \<in> set (takenPorts (heap s ! this))")
      case True
      with Inr step(2) have "f this (s\<lparr>trace := trace s @ [GetPort]\<rparr>) = Some y"
        by (simp add: Let_def)
      from step(1) [OF this] show ?thesis by (simp add: bindable_def)
    next
      case False
      with Inr step(2) b show ?thesis by (auto simp: Let_def)
    qed
  qed
qed

lemma getAvailablePort_Resolved:
  assumes "getAvailablePort this s = Some (Resolved p, s')"
  shows "bindable s p \<and> p \<notin> set (takenPorts (heap s ! this))"
proof -
  from assms have "getPortRecursive this s = Some (Inr p, s')"
    by (auto simp: getAvailablePort_def split: option.splits sum.splits prod.splits)
  from getPortRecursive_accepts [OF this] show ?thesis by simp
qed

lemmas eval_ports = allocatePorts_def portfinder_getPorts_def portfinder_getPort_def
  numeral_2_eq_2 portfinder_scan.simps bindable_def highestPort_def state1_def
  new_KafkaManager_def state0_def BASE_PORT_def Let_def

text \<open>
  C1 (as amended). A successful \<open>allocatePorts\<close> returns two different ports, each of
  them bindable when portfinder probed it; as long as the manager's \<open>takenPorts\<close> is
  empty (it always is, see C9) neither is in that set. On the path that does consult the
  set, \<open>getAvailablePort\<close>, a port is accepted only if it is bindable and not in
  \<open>takenPorts\<close>. Nothing is said about two allocations returning different ports.
\<close>

theorem allocation_accepts:
  "(allocatePorts w this s = (Resolved pp, s') \<and> takenPorts (heap s ! this) = [] \<longrightarrow>
      kafkaPort pp \<noteq> controllerPort pp
      \<and> bindable s (kafkaPort pp) \<and> bindable s (controllerPort pp)
      \<and> kafkaPort pp \<notin> set (takenPorts (heap s ! this))
      \<and> controllerPort pp \<notin> set (takenPorts (heap s ! this)))
   \<and> (getAvailablePort this s = Some (Resolved p, s'') \<longrightarrow>
      bindable s p \<and> p \<notin> set (takenPorts (heap s ! this)))"
proof (intro conjI impI)
  assume a: "allocatePorts w this s = (Resolved pp, s') \<and> takenPorts (heap s ! this) = []"
  then have *: "kafkaPort pp < controllerPort pp \<and> bindable s (kafkaPort pp) \<and> bindable s (controllerPort pp)"
    using allocatePorts_Resolved by blast
  from * show "kafkaPort pp \<noteq> controllerPort pp" by simp
  from * show "bindable s (kafkaPort pp)" by simp
  from * show "bindable s (controllerPort pp)" by simp
  from a show "kafkaPort pp \<notin> set (takenPorts (heap s ! this))" by simp
  from a show "controllerPort pp \<notin> set (takenPorts (heap s ! this))" by simp
next
  assume "getAvailablePort this s = Some (Resolved p, s'')"
  from getAvailablePort_Resolved [OF this]
  show "bindable s p" and "p \<notin> set (takenPorts (heap s ! this))" by simp_all
qed

theorem allocation_accepts_witness:
  "allocatePorts world0 0 state1
     = (Resolved \<lparr>kafkaPort = 18001, controllerPort = 18003\<rparr>, state1\<lparr>trace := [GetPorts 2]\<rparr>)
   \<and> takenPorts (heap state1 ! 0) = []
   \<and> getAvailablePort 0 state1 = Some (Resolved 18001, state1\<lparr>trace := [GetPort]\<rparr>)
   \<and> bindable state1 18001 \<and> bindable state1 18003 \<and> (18001 :: port) \<noteq> 18003"
proof -
  have a: "allocatePorts world0 0 state1
     = (Resolved \<lparr>kafkaPort = 18001, controllerPort = 18003\<rparr>, state1\<lparr>trace := [GetPorts 2]\<rparr>)"
    by (simp add: eval_ports)
  have t: "takenPorts (heap state1 ! 0) = []"
    by (simp add: state1_def new_KafkaManager_def state0_def)
  have g: "getAvailablePort 0 state1 = Some (Resolved 18001, state1\<lparr>trace := [GetPort]\<rparr>)"
    unfolding getAvailablePort_def
    by (subst getPortRecursive.simps) (simp add: eval_ports)
  from a t g allocation_accepts [of world0 0 state1
      "\<lparr>kafkaPort = 18001, controllerPort = 18003\<rparr>" "state1\<lparr>trace := [GetPorts 2]\<rparr>"
      18001 "state1\<lparr>trace := [GetPort]\<rparr>"]
  show ?thesis by simp
qed

text \<open>
  C1 as stated fails: \<open>allocatePorts\<close> records nothing, so a second allocation in the
  same process, with the ports still free, returns the pair of the first.
\<close>

theorem allocation_repeats_counterexample:
  "fst (allocatePorts world0 0 state1) = Resolved \<lparr>kafkaPort = 18001, controllerPort = 18003\<rparr>
   \<and> fst (allocatePorts world0 0 (snd (allocatePorts world0 0 state1)))
       = Resolved \<lparr>kafkaPort = 18001, controllerPort = 18003\<rparr>"
  by (simp add: eval_ports)

section \<open>Promises and the effects of each method\<close>

lemma await_then_Resolved:
  "await_then m f s = (Resolved y, s') \<Longrightarrow> \<exists>x s1. m s = (Resolved x, s1) \<and> f x s1 = (Resolved y, s')"
  by (auto simp: await_then_def split: prod.splits promise.splits)

lemma await_then_step:
  "m s = (Resolved x, s1) \<Longrightarrow> await_then m f s = f x s1"
  by (simp add: await_then_def)

lemma await_then_Rejected:
  "m s = (Rejected e, s1) \<Longrightarrow> await_then m f s = (Rejected e, s1)"
  by (simp add: await_then_def)

lemma await_then_Pending:
  "m s = (Pending, s1) \<Longrightarrow> await_then m f s = (Pending, s1)"
  by (simp add: await_then_def)

lemma try_catch_rethrow:
  "try_catch m (\<lambda>error. throw error) s = m s"
  by (auto simp: try_catch_def throw_def split: prod.splits promise.splits)

lemma startKafkaServer_Resolved:
  assumes "startKafkaServer w this s = (Resolved h, s')"
  shows "\<exists>ports s1 kafkaDir s2 propertiesFile s3 s4.
           allocatePorts w this s = (Resolved ports, s1)
         \<and> createTempDirectory w this ''kafka-'' s1 = (Resolved kafkaDir, s2)
         \<and> createKafkaConfig w this kafkaDir (controllerPort ports) (kafkaPort ports) s2
             = (Resolved propertiesFile, s3)
         \<and> initializeStorage w this propertiesFile s3 = (Resolved (), s4)
         \<and> startKafkaProcess w this kafkaDir (kafkaPort ports) s4 = (Resolved h, s')"
proof -
  from assms obtain ports s1 where 1: "allocatePorts w this s = (Resolved ports, s1)"
    and r1: "await_then (createTempDirectory w this ''kafka-'') (\<lambda>kafkaDir.
        await_then (createKafkaConfig w this kafkaDir (controllerPort ports) (kafkaPort ports))
          (\<lambda>propertiesFile.
        await_then (initializeStorage w this propertiesFile) (\<lambda>_.
        startKafkaProcess w this kafkaDir (kafkaPort ports)))) s1 = (Resolved h, s')"
    unfolding startKafkaServer_def try_catch_rethrow by (blast dest: await_then_Resolved)
  from r1 obtain kafkaDir s2 where 2: "createTempDirectory w this ''kafka-'' s1 = (Resolved kafkaDir, s2)"
    and r2: "await_then (createKafkaConfig w this kafkaDir (controllerPort ports) (kafkaPort ports))
          (\<lambda>propertiesFile.
        await_then (initializeStorage w this propertiesFile) (\<lambda>_.
        startKafkaProcess w this kafkaDir (kafkaPort ports))) s2 = (Resolved h, s')"
    by (blast dest: await_then_Resolved)
  from r2 obtain propertiesFile s3 where
    3: "createKafkaConfig w this kafkaDir (controllerPort ports) (kafkaPort ports) s2
          = (Resolved propertiesFile, s3)"
    and r3: "await_then (initializeStorage w this propertiesFile) (\<lambda>_.
        startKafkaProcess w this kafkaDir (kafkaPort ports)) s3 = (Resolved h, s')"
    by (blast dest: await_then_Resolved)
  from r3 obtain u s4 where 4: "initializeStorage w this propertiesFile s3 = (Resolved u, s4)"
    and 5: "startKafkaProcess w this kafkaDir (kafkaPort ports) s4 = (Resolved h, s')"
    by (blast dest: await_then_Resolved)
  from 1 2 3 4 5 show ?thesis by auto
qed

text \<open>What each method does to the trace and to the heap.\<close>

lemma allocatePorts_state:
  "snd (allocatePorts w this s) = s\<lparr>trace := trace s @ [GetPorts 2]\<rparr>"
  by (simp add: allocatePorts_def Let_def split: sum.splits)

lemma createTempDirectory_heap:
  "heap (snd (createTempDirectory w this prefix s)) = heap s"
  by (simp add: createTempDirectory_def Let_def split: sum.splits)

lemma createKafkaConfig_heap:
  "heap (snd (createKafkaConfig w this d c k s)) = heap s"
  by (simp add: createKafkaConfig_def editor_save_def Let_def split: sum.splits)

lemma initializeStorage_state:
  "snd (initializeStorage w this f s) =
     s\<lparr>trace := trace s @ [Exec (storage_command (storage_script w) f)]\<rparr>"
  by (simp add: initializeStorage_def Let_def split: option.splits)

lemma killProcess_heap: "heap (snd (killProcess w this p s)) = heap s"
  by (simp add: killProcess_def Let_def)

lemma stopKafkaServer_heap: "heap (snd (stopKafkaServer w this s)) = heap s"
  by (simp add: stopKafkaServer_def Let_def split: spawn_outcome.splits)

lemma await_then_heap:
  assumes "\<And>s. heap (snd (m s)) = heap s" and "\<And>x s. heap (snd (f x s)) = heap s"
  shows "heap (snd (await_then m f s)) = heap s"
proof (cases "m s")
  case (Pair r s1)
  from assms(1) [of s] Pair have h: "heap s1 = heap s" by simp
  show ?thesis
  proof (cases r)
    case (Resolved x)
    with Pair have "await_then m f s = f x s1" by (simp add: await_then_def)
    with assms(2) [of x s1] h show ?thesis by simp
  next
    case (Rejected e)
    with Pair h show ?thesis by (simp add: await_then_def)
  next
    case Pending
    with Pair h show ?thesis by (simp add: await_then_def)
  qed
qed

lemma close_heap: "heap (snd (close w h s)) = heap s"
  unfolding close_def by (rule await_then_heap) (simp_all add: killProcess_heap stopKafkaServer_heap)

section \<open>Config generation\<close>

lemma map_of_editor_set: "map_of (editor_set k v ps) = (map_of ps)(k \<mapsto> v)"
  by (simp add: editor_set_def update_conv')

lemma keys_editor_set: "fst ` set (editor_set k v ps) = insert k (fst ` set ps)"
  by (simp add: editor_set_def dom_update)

lemma filter_editor_set:
  "k \<in> K \<Longrightarrow> filter (\<lambda>kv. fst kv \<notin> K) (editor_set k v ps) = filter (\<lambda>kv. fst kv \<notin> K) ps"
  unfolding editor_set_def by (induction ps) auto

lemma editor_save_files:
  "fs_writable w p \<Longrightarrow> map_of (files (snd (editor_save w p ps s))) p = Some ps"
  by (simp add: editor_save_def Let_def update_conv')

lemma digit_char_digit: "d < 10 \<Longrightarrow> digit_char d \<in> set ''0123456789''"
proof -
  assume "d < 10"
  then have "d \<in> {0, 1, 2, 3, 4, 5, 6, 7, 8, 9}" by auto
  then show ?thesis
    by (auto simp: digit_char_def)
qed

lemma digit_value_digit_char: "d < 10 \<Longrightarrow> digit_value (digit_char d) = d"
proof -
  assume "d < 10"
  then have "d \<in> {0, 1, 2, 3, 4, 5, 6, 7, 8, 9}" by auto
  then show ?thesis
    by (auto simp: digit_value_def digit_char_def)
qed

lemma digit_char_zero: "d < 10 \<Longrightarrow> digit_char d = CHR ''0'' \<Longrightarrow> d = 0"
proof -
  assume "d < 10" and z: "digit_char d = CHR ''0''"
  then have "d \<in> {0, 1, 2, 3, 4, 5, 6, 7, 8, 9}" by auto
  with z show ?thesis
    by (auto simp: digit_char_def)
qed

lemma read_nat_snoc: "read_nat (str @ [c]) = 10 * read_nat str + digit_value c"
  by (simp add: read_nat_def)

lemma show_nat_not_empty: "show_nat n \<noteq> []"
  by (subst show_nat.simps) simp

lemma show_nat_digits: "set (show_nat n) \<subseteq> set ''0123456789''"
proof (induction n rule: show_nat.induct)
  case (1 n)
  show ?case
  proof (cases "n < 10")
    case True
    then have "show_nat n = [digit_char n]" by (subst show_nat.simps) simp
    with digit_char_digit [OF True] show ?thesis by simp
  next
    case False
    then have "show_nat n = show_nat (n div 10) @ [digit_char (n mod 10)]"
      by (subst show_nat.simps) simp
    moreover have "digit_char (n mod 10) \<in> set ''0123456789''"
      by (rule digit_char_digit) simp
    ultimately show ?thesis using "1.IH" [OF False] by simp
  qed
qed

lemma read_nat_show_nat: "read_nat (show_nat n) = n"
proof (induction n rule: show_nat.induct)
  case (1 n)
  show ?case
  proof (cases "n < 10")
    case True
    then have "show_nat n = [digit_char n]" by (subst show_nat.simps) simp
    with digit_value_digit_char [OF True] show ?thesis by (simp add: read_nat_def)
  next
    case False
    then have "show_nat n = show_nat (n div 10) @ [digit_char (n mod 10)]"
      by (subst show_nat.simps) simp
    moreover have "digit_value (digit_char (n mod 10)) = n mod 10"
      by (rule digit_value_digit_char) simp
    ultimately show ?thesis using "1.IH" [OF False] by (simp add: read_nat_snoc)
  qed
qed

lemma show_nat_leading_zero: "hd (show_nat n) = CHR ''0'' \<Longrightarrow> n = 0"
proof (induction n rule: show_nat.induct)
  case (1 n)
  show ?case
  proof (cases "n < 10")
    case True
    then have "show_nat n = [digit_char n]" by (subst show_nat.simps) simp
    with "1.prems" True show ?thesis by (simp add: digit_char_zero)
  next
    case False
    then have "show_nat n = show_nat (n div 10) @ [digit_char (n mod 10)]"
      by (subst show_nat.simps) simp
    with "1.prems" have "hd (show_nat (n div 10)) = CHR ''0''"
      by (simp add: show_nat_not_empty)
    with "1.IH" [OF False] have "n div 10 = 0" by simp
    with False show ?thesis by simp
  qed
qed

lemma show_nat_zero: "show_nat 0 = ''0''"
  by (subst show_nat.simps) (simp add: digit_char_def)

lemma show_nat_is_decimal: "is_decimal_of (show_nat n) n"
proof -
  have "hd (show_nat n) = CHR ''0'' \<longrightarrow> show_nat n = ''0''"
    using show_nat_leading_zero [of n] show_nat_zero by auto
  with show_nat_not_empty [of n] show_nat_digits [of n] read_nat_show_nat [of n] show ?thesis
    unfolding is_decimal_of_def by blast
qed

lemma split_on_not_empty: "split_on c s \<noteq> []"
  by (induction s) (auto split: list.splits)

lemma join_split: "join_with [c] (split_on c s) = s"
proof (induction s)
  case Nil
  show ?case by simp
next
  case (Cons x xs)
  obtain seg segs where sp: "split_on c xs = seg # segs"
    using split_on_not_empty [of c xs] by (cases "split_on c xs") auto
  show ?case
  proof (cases "x = c")
    case True
    with Cons sp show ?thesis by simp
  next
    case False
    with Cons sp show ?thesis by (cases segs) auto
  qed
qed

lemma split_on_plain: "c \<notin> set seg \<Longrightarrow> split_on c seg = [seg]"
  by (induction seg) auto

lemma split_on_segment: "c \<notin> set seg \<Longrightarrow> split_on c (seg @ c # r) = seg # split_on c r"
  by (induction seg) auto

lemma split_join:
  "segs \<noteq> [] \<Longrightarrow> \<forall>seg \<in> set segs. c \<notin> set seg \<Longrightarrow> split_on c (join_with [c] segs) = segs"
proof (induction segs)
  case Nil
  then show ?case by simp
next
  case (Cons x xs)
  show ?case
  proof (cases xs)
    case Nil
    with Cons.prems show ?thesis by (simp add: split_on_plain)
  next
    case (Cons y ys)
    with Cons.IH Cons.prems have "split_on c (join_with [c] xs) = xs" by simp
    with Cons Cons.prems show ?thesis by (simp add: split_on_segment)
  qed
qed

lemma foldl_normalize_plain:
  "list_all plain_segment segs \<Longrightarrow> foldl (normalize_step a) acc segs = rev segs @ acc"
  by (induction segs arbitrary: acc) (auto simp: normalize_step_def plain_segment_def)

lemma join_with_snoc:
  "segs \<noteq> [] \<Longrightarrow> join_with sep (segs @ [x]) = join_with sep segs @ sep @ x"
  by (induction sep segs rule: join_with.induct) auto

lemma join_with_not_empty:
  "segs \<noteq> [] \<Longrightarrow> list_all plain_segment segs \<Longrightarrow> join_with sep segs \<noteq> []"
  by (induction sep segs rule: join_with.induct) (auto simp: plain_segment_def)

lemma join_with_last:
  "segs \<noteq> [] \<Longrightarrow> list_all plain_segment segs \<Longrightarrow> last (join_with ''/'' segs) \<noteq> CHR ''/''"
proof (induction "''/''" segs rule: join_with.induct)
  case 1
  then show ?case by simp
next
  case (2 x)
  then have "x \<noteq> []" and "CHR ''/'' \<notin> set x" by (simp_all add: plain_segment_def)
  then show ?case by (metis join_with.simps(2) last_in_set)
next
  case (3 x y ys)
  then have "join_with ''/'' (y # ys) \<noteq> []" by (simp add: join_with_not_empty)
  with 3 show ?case by simp
qed

lemma posix_normalize_plain:
  assumes "segs \<noteq> []" and "list_all plain_segment segs"
  shows "posix_normalize (CHR ''/'' # join_with ''/'' segs) = CHR ''/'' # join_with ''/'' segs"
proof -
  let ?p = "CHR ''/'' # join_with ''/'' segs"
  from assms have ne: "join_with ''/'' segs \<noteq> []" by (rule join_with_not_empty)
  from assms(2) have nos: "\<forall>seg \<in> set segs. CHR ''/'' \<notin> set seg"
    by (simp add: list_all_iff plain_segment_def)
  have "split_on CHR ''/'' ?p = [] # segs"
    using split_join [OF assms(1) nos] by simp
  then have "normalizeString ?p False = join_with ''/'' segs"
    by (simp add: normalizeString_def normalize_step_def foldl_normalize_plain [OF assms(2)])
  moreover have "last ?p \<noteq> CHR ''/''"
    using ne join_with_last [OF assms] by simp
  ultimately show ?thesis using ne by (simp add: posix_normalize_def Let_def)
qed

lemma posix_join_in_directory:
  assumes "normalised_absolute d" and "plain_segment f"
  shows "posix_join [d, f] = d @ ''/'' @ f"
proof -
  from assms(1) obtain segs where sp: "split_on CHR ''/'' d = [] # segs"
    and ne: "segs \<noteq> []" and pl: "list_all plain_segment segs"
    by (auto simp: normalised_absolute_def split: list.splits)
  from join_split [of "CHR ''/''" d] sp ne have d: "d = CHR ''/'' # join_with ''/'' segs"
    by (cases segs) auto
  from assms(2) have f: "f \<noteq> []" by (simp add: plain_segment_def)
  have dn: "d \<noteq> []" by (simp add: d)
  have "join_with ''/'' [d, f] = CHR ''/'' # join_with ''/'' (segs @ [f])"
    using ne by (simp add: d join_with_snoc)
  moreover have "posix_normalize (CHR ''/'' # join_with ''/'' (segs @ [f]))
      = CHR ''/'' # join_with ''/'' (segs @ [f])"
    by (rule posix_normalize_plain) (simp_all add: pl assms(2))
  ultimately show ?thesis
    using ne f dn by (simp add: posix_join_def Let_def d join_with_snoc)
qed

text \<open>
  C3. When the template can be read, \<open>createKafkaConfig\<close> resolves with
  \<open>path.join(kafkaDir, 'server.properties')\<close>, which on a POSIX host and for a workspace
  as \<open>tmp\<close> hands it out is the workspace directory followed by \<open>/server.properties\<close>.
  It hands one property set to \<open>save\<close>, and when the destination can be written that set
  is what is stored under the path (when it cannot, no file changes and the promise
  resolves all the same). The set holds the five keys with these values: \<open>log.dirs\<close> is the workspace
  directory with every backslash doubled (the directory itself when it has none);
  \<open>controller.quorum.bootstrap.servers\<close> is \<open>localhost:\<close> and the decimal numeral of the
  controller port; \<open>listeners\<close> and \<open>advertised.listeners\<close> are
  \<open>PLAINTEXT://localhost:\<close>, the decimal numeral of the client port,
  \<open>,CONTROLLER://localhost:\<close> and the decimal numeral of the controller port;
  \<open>controller.listener.names\<close> is \<open>CONTROLLER\<close>. Every other key has the template's
  value, the template's other entries are there unchanged and in the template's order,
  no key is present that is neither in the template nor one of the five, and no key
  occurs twice unless it does so in the template.
\<close>

theorem config_overrides_five_keys:
  assumes tmpl: "map_of (files s) (KAFKA_PROPERTIES w) = Some template"
    and run: "createKafkaConfig w this kafkaDir cPort kPort s = (out, s')"
  shows "\<exists>cfg pk pc. is_decimal_of pk kPort \<and> is_decimal_of pc cPort
      \<and> out = Resolved (path_join w [kafkaDir, ''server.properties''])
      \<and> (path_join w = posix_join \<and> normalised_absolute kafkaDir
            \<longrightarrow> path_join w [kafkaDir, ''server.properties''] = kafkaDir @ ''/server.properties'')
      \<and> (fs_writable w (path_join w [kafkaDir, ''server.properties''])
            \<longrightarrow> map_of (files s') (path_join w [kafkaDir, ''server.properties'']) = Some cfg)
      \<and> (\<not> fs_writable w (path_join w [kafkaDir, ''server.properties''])
            \<longrightarrow> files s' = files s)
      \<and> (distinct (map fst template) \<longrightarrow> distinct (map fst cfg))
      \<and> map_of cfg ''log.dirs''
          = Some (concat (map (\<lambda>c. if c = CHR 0x5C then [CHR 0x5C, CHR 0x5C] else [c]) kafkaDir))
      \<and> (CHR 0x5C \<notin> set kafkaDir \<longrightarrow> map_of cfg ''log.dirs'' = Some kafkaDir)
      \<and> map_of cfg ''controller.quorum.bootstrap.servers'' = Some (''localhost:'' @ pc)
      \<and> map_of cfg ''listeners''
          = Some (''PLAINTEXT://localhost:'' @ pk @ '',CONTROLLER://localhost:'' @ pc)
      \<and> map_of cfg ''advertised.listeners''
          = Some (''PLAINTEXT://localhost:'' @ pk @ '',CONTROLLER://localhost:'' @ pc)
      \<and> map_of cfg ''controller.listener.names'' = Some ''CONTROLLER''
      \<and> (\<forall>k. k \<notin> set overridden_keys \<longrightarrow> map_of cfg k = map_of template k)
      \<and> filter (\<lambda>kv. fst kv \<notin> set overridden_keys) cfg
          = filter (\<lambda>kv. fst kv \<notin> set overridden_keys) template
      \<and> fst ` set cfg = fst ` set template \<union> set overridden_keys"
proof -
  define cfg where "cfg =
    editor_set ''controller.listener.names'' ''CONTROLLER''
     (editor_set ''advertised.listeners'' (listeners_value kPort cPort)
      (editor_set ''listeners'' (listeners_value kPort cPort)
       (editor_set ''controller.quorum.bootstrap.servers'' (''localhost:'' @ show_nat cPort)
        (editor_set ''log.dirs'' (escape_backslashes kafkaDir) template))))"
  define fn where "fn = path_join w [kafkaDir, ''server.properties'']"
  define s1 where "s1 = s\<lparr>trace := trace s @ [CreateEditor (KAFKA_PROPERTIES w)]\<rparr>"
  from tmpl have ed: "createEditor s (KAFKA_PROPERTIES w) = Inr template"
    by (simp add: createEditor_def)
  have res: "createKafkaConfig w this kafkaDir cPort kPort s
               = (Resolved fn, snd (editor_save w fn cfg s1))"
    by (simp add: createKafkaConfig_def ed Let_def cfg_def fn_def s1_def)
  with run have out: "out = Resolved fn" and s': "s' = snd (editor_save w fn cfg s1)"
    by simp_all
  have written: "fs_writable w fn \<longrightarrow> map_of (files s') fn = Some cfg"
    unfolding s' by (simp add: editor_save_files)
  have unwritten: "\<not> fs_writable w fn \<longrightarrow> files s' = files s"
    unfolding s' by (simp add: editor_save_def s1_def Let_def)
  have dist: "distinct (map fst template) \<longrightarrow> distinct (map fst cfg)"
    unfolding cfg_def editor_set_def by (simp add: distinct_update)
  have m: "map_of cfg =
      (map_of template)(''log.dirs'' \<mapsto> escape_backslashes kafkaDir,
        ''controller.quorum.bootstrap.servers'' \<mapsto> ''localhost:'' @ show_nat cPort,
        ''listeners'' \<mapsto> listeners_value kPort cPort,
        ''advertised.listeners'' \<mapsto> listeners_value kPort cPort,
        ''controller.listener.names'' \<mapsto> ''CONTROLLER'')"
    by (simp add: cfg_def map_of_editor_set)
  have v1: "map_of cfg ''log.dirs''
      = Some (concat (map (\<lambda>c. if c = CHR 0x5C then [CHR 0x5C, CHR 0x5C] else [c]) kafkaDir))"
    by (simp add: m escape_backslashes_def)
  have same: "CHR 0x5C \<notin> set d \<Longrightarrow>
      concat (map (\<lambda>c. if c = CHR 0x5C then [CHR 0x5C, CHR 0x5C] else [c]) d) = d" for d
    by (induction d) auto
  from v1 same [of kafkaDir]
  have v1': "CHR 0x5C \<notin> set kafkaDir \<longrightarrow> map_of cfg ''log.dirs'' = Some kafkaDir"
    by simp
  have v2: "map_of cfg ''controller.quorum.bootstrap.servers'' = Some (''localhost:'' @ show_nat cPort)"
    by (simp add: m)
  have v3: "map_of cfg ''listeners''
      = Some (''PLAINTEXT://localhost:'' @ show_nat kPort @ '',CONTROLLER://localhost:''
              @ show_nat cPort)"
    by (simp add: m listeners_value_def)
  have v4: "map_of cfg ''advertised.listeners''
      = Some (''PLAINTEXT://localhost:'' @ show_nat kPort @ '',CONTROLLER://localhost:''
              @ show_nat cPort)"
    by (simp add: m listeners_value_def)
  have v5: "map_of cfg ''controller.listener.names'' = Some ''CONTROLLER''"
    by (simp add: m)
  have other: "\<forall>k. k \<notin> set overridden_keys \<longrightarrow> map_of cfg k = map_of template k"
    by (simp add: m overridden_keys_def)
  have mem: "''log.dirs'' \<in> set overridden_keys"
    "''controller.quorum.bootstrap.servers'' \<in> set overridden_keys"
    "''listeners'' \<in> set overridden_keys"
    "''advertised.listeners'' \<in> set overridden_keys"
    "''controller.listener.names'' \<in> set overridden_keys"
    by (simp_all add: overridden_keys_def)
  have flt: "filter (\<lambda>kv. fst kv \<notin> set overridden_keys) cfg
          = filter (\<lambda>kv. fst kv \<notin> set overridden_keys) template"
    unfolding cfg_def by (simp add: filter_editor_set mem)
  have keys: "fst ` set cfg = fst ` set template \<union> set overridden_keys"
    unfolding cfg_def keys_editor_set overridden_keys_def by auto
  have inside: "path_join w = posix_join \<and> normalised_absolute kafkaDir
            \<longrightarrow> path_join w [kafkaDir, ''server.properties''] = kafkaDir @ ''/server.properties''"
    using posix_join_in_directory [of kafkaDir "''server.properties''"]
    by (simp add: plain_segment_def)
  from show_nat_is_decimal [of kPort] show_nat_is_decimal [of cPort]
    out [unfolded fn_def] written [unfolded fn_def] unwritten [unfolded fn_def] dist
    inside v1 v1' v2 v3 v4 v5 other flt keys
  show ?thesis by blast
qed

lemma posix_join_workspace:
  "posix_join [''/tmp/kafka-0'', ''server.properties''] = ''/tmp/kafka-0/server.properties''"
  by (simp add: posix_join_def posix_normalize_def normalizeString_def normalize_step_def Let_def)

lemma posix_join_template:
  "posix_join [''/k/bin'', ''kafka-storage.sh''] = ''/k/bin/kafka-storage.sh''"
  "posix_join [''/k/bin'', ''kafka-server-start.sh''] = ''/k/bin/kafka-server-start.sh''"
  "posix_join [''/k/bin'', ''kafka-server-stop.sh''] = ''/k/bin/kafka-server-stop.sh''"
  by (simp_all add: posix_join_def posix_normalize_def normalizeString_def normalize_step_def
        Let_def)

lemma posix_join_odd_workspace:
  "posix_join [''/tmp//a/../k'' @ [CHR 0x5C] @ ''1/'', ''server.properties'']
     = ''/tmp/k'' @ [CHR 0x5C] @ ''1/server.properties''"
  by (simp add: posix_join_def posix_normalize_def normalizeString_def normalize_step_def Let_def)

lemmas eval_config = createKafkaConfig_def createEditor_def editor_set_def editor_save_def
  escape_backslashes_def listeners_value_def show_nat.simps digit_char_def
  posix_join_workspace posix_join_template
  world0_def state1_def state0_def new_KafkaManager_def Let_def

theorem config_overrides_five_keys_witness:
  "map_of (files state1) (KAFKA_PROPERTIES world0)
     = Some [(''node.id'', ''1''), (''log.dirs'', ''/tmp/kraft-combined-logs''),
             (''num.partitions'', ''1'')]
   \<and> fs_writable world0 (path_join world0 [''/tmp/kafka-0'', ''server.properties''])
   \<and> fst (createKafkaConfig world0 0 ''/tmp/kafka-0'' 18003 18001 state1)
       = Resolved ''/tmp/kafka-0/server.properties''
   \<and> map_of (files (snd (createKafkaConfig world0 0 ''/tmp/kafka-0'' 18003 18001 state1)))
        ''/tmp/kafka-0/server.properties''
       = Some [(''node.id'', ''1''), (''log.dirs'', ''/tmp/kafka-0''), (''num.partitions'', ''1''),
               (''controller.quorum.bootstrap.servers'', ''localhost:18003''),
               (''listeners'', ''PLAINTEXT://localhost:18001,CONTROLLER://localhost:18003''),
               (''advertised.listeners'', ''PLAINTEXT://localhost:18001,CONTROLLER://localhost:18003''),
               (''controller.listener.names'', ''CONTROLLER'')]
   \<and> is_decimal_of ''18001'' 18001 \<and> is_decimal_of ''18003'' 18003
   \<and> path_join world0 = posix_join \<and> normalised_absolute ''/tmp/kafka-0''
   \<and> CHR 0x5C \<notin> set ''/tmp/kafka-0''
   \<and> distinct (map fst [(''node.id'', ''1''), (''log.dirs'', ''/tmp/kraft-combined-logs''),
                          (''num.partitions'', ''1'')])
   \<and> \<not> fs_writable world_no_write (path_join world_no_write [''/tmp/kafka-0'', ''server.properties''])
   \<and> fst (createKafkaConfig world_no_write 0 ''/tmp/kafka-0'' 18003 18001 state1)
       = Resolved ''/tmp/kafka-0/server.properties''
   \<and> files (snd (createKafkaConfig world_no_write 0 ''/tmp/kafka-0'' 18003 18001 state1))
       = files state1
   \<and> fst (createKafkaConfig world0 0 (''/tmp//a/../k'' @ [CHR 0x5C] @ ''1/'') 9 70000 state1)
       = Resolved (''/tmp/k'' @ [CHR 0x5C] @ ''1/server.properties'')
   \<and> map_of (files (snd (createKafkaConfig world0 0 (''/tmp//a/../k'' @ [CHR 0x5C] @ ''1/'')
          9 70000 state1)))
        (''/tmp/k'' @ [CHR 0x5C] @ ''1/server.properties'')
       = Some [(''node.id'', ''1''),
               (''log.dirs'', ''/tmp//a/../k'' @ [CHR 0x5C, CHR 0x5C] @ ''1/''),
               (''num.partitions'', ''1''),
               (''controller.quorum.bootstrap.servers'', ''localhost:9''),
               (''listeners'', ''PLAINTEXT://localhost:70000,CONTROLLER://localhost:9''),
               (''advertised.listeners'', ''PLAINTEXT://localhost:70000,CONTROLLER://localhost:9''),
               (''controller.listener.names'', ''CONTROLLER'')]"
proof -
  let ?odd = "''/tmp//a/../k'' @ [CHR 0x5C] @ ''1/''"
  let ?run = "createKafkaConfig world0 0 ''/tmp/kafka-0'' 18003 18001 state1"
  let ?run2 = "createKafkaConfig world0 0 ?odd 9 70000 state1"
  have t: "map_of (files state1) (KAFKA_PROPERTIES world0)
     = Some [(''node.id'', ''1''), (''log.dirs'', ''/tmp/kraft-combined-logs''),
             (''num.partitions'', ''1'')]"
    by (simp add: state1_def state0_def new_KafkaManager_def world0_def)
  have wr: "fs_writable world0 (path_join world0 [d, ''server.properties''])" for d
    by (simp add: world0_def)
  have j1: "path_join world0 [''/tmp/kafka-0'', ''server.properties'']
      = ''/tmp/kafka-0/server.properties''"
    by (simp add: world0_def posix_join_workspace)
  have j2: "path_join world0 [?odd, ''server.properties'']
      = ''/tmp/k'' @ [CHR 0x5C] @ ''1/server.properties''"
    using posix_join_odd_workspace by (simp add: world0_def)
  have p1: "?run = (fst ?run, snd ?run)" and p2: "?run2 = (fst ?run2, snd ?run2)"
    by simp_all
  from config_overrides_five_keys [OF t p1]
  obtain cfg pk pc where d1: "is_decimal_of pk 18001" "is_decimal_of pc 18003"
    and r1: "fst ?run = Resolved (path_join world0 [''/tmp/kafka-0'', ''server.properties''])"
    by blast
  from config_overrides_five_keys [OF t p2]
  obtain cfg2 where
    r2: "fst ?run2 = Resolved (path_join world0 [?odd, ''server.properties''])"
    by blast
  let ?run3 = "createKafkaConfig world_no_write 0 ''/tmp/kafka-0'' 18003 18001 state1"
  have t3: "map_of (files state1) (KAFKA_PROPERTIES world_no_write)
     = Some [(''node.id'', ''1''), (''log.dirs'', ''/tmp/kraft-combined-logs''),
             (''num.partitions'', ''1'')]"
    by (simp add: state1_def state0_def new_KafkaManager_def world_no_write_def world0_def)
  have nw: "\<not> fs_writable world_no_write
      (path_join world_no_write [''/tmp/kafka-0'', ''server.properties''])"
    by (simp add: world_no_write_def)
  have j3: "path_join world_no_write [''/tmp/kafka-0'', ''server.properties'']
      = ''/tmp/kafka-0/server.properties''"
    by (simp add: world_no_write_def world0_def posix_join_workspace)
  have p3: "?run3 = (fst ?run3, snd ?run3)" by simp
  from config_overrides_five_keys [OF t3 p3] nw
  have r3: "fst ?run3 = Resolved (path_join world_no_write [''/tmp/kafka-0'', ''server.properties''])"
    and f3: "files (snd ?run3) = files state1"
    by blast+
  have e1: "map_of (files (snd ?run)) ''/tmp/kafka-0/server.properties''
       = Some [(''node.id'', ''1''), (''log.dirs'', ''/tmp/kafka-0''), (''num.partitions'', ''1''),
               (''controller.quorum.bootstrap.servers'', ''localhost:18003''),
               (''listeners'', ''PLAINTEXT://localhost:18001,CONTROLLER://localhost:18003''),
               (''advertised.listeners'', ''PLAINTEXT://localhost:18001,CONTROLLER://localhost:18003''),
               (''controller.listener.names'', ''CONTROLLER'')]"
    by (simp add: eval_config)
  have e2: "map_of (files (snd ?run2)) (''/tmp/k'' @ [CHR 0x5C] @ ''1/server.properties'')
       = Some [(''node.id'', ''1''),
               (''log.dirs'', ''/tmp//a/../k'' @ [CHR 0x5C, CHR 0x5C] @ ''1/''),
               (''num.partitions'', ''1''),
               (''controller.quorum.bootstrap.servers'', ''localhost:9''),
               (''listeners'', ''PLAINTEXT://localhost:70000,CONTROLLER://localhost:9''),
               (''advertised.listeners'', ''PLAINTEXT://localhost:70000,CONTROLLER://localhost:9''),
               (''controller.listener.names'', ''CONTROLLER'')]"
    using posix_join_odd_workspace
    by (simp add: createKafkaConfig_def createEditor_def editor_set_def editor_save_def
          escape_backslashes_def listeners_value_def show_nat.simps digit_char_def
          world0_def state1_def state0_def new_KafkaManager_def Let_def)
  have dec: "is_decimal_of ''18001'' 18001" "is_decimal_of ''18003'' 18003"
    by (simp_all add: is_decimal_of_def read_nat_def digit_value_def)
  have na: "path_join world0 = posix_join" "normalised_absolute ''/tmp/kafka-0''"
    by (simp_all add: world0_def normalised_absolute_def plain_segment_def)
  from t wr r1 [unfolded j1] r2 [unfolded j2] e1 e2 dec na nw r3 [unfolded j3] f3
  show ?thesis by simp
qed

section \<open>Provisioning, start and shutdown\<close>

lemma initializeStorage_run:
  "initializeStorage w this f s =
     (case exec_error (exec_run w (storage_command (storage_script w) f)) of
        Some error \<Rightarrow> Rejected error
      | None \<Rightarrow> Resolved (),
      s\<lparr>trace := trace s @ [Exec (storage_command (storage_script w) f)]\<rparr>)"
  by (simp add: initializeStorage_def Let_def split: option.splits)

lemma initializeStorage_result:
  "fst (initializeStorage w this f s) =
     (if ex_status (exec_run w (storage_command (storage_script w) f)) = Exited 0
         \<and> ex_failure (exec_run w (storage_command (storage_script w) f)) = None
      then Resolved ()
      else Rejected (StorageInitError (exec_run w (storage_command (storage_script w) f))))"
  by (simp add: initializeStorage_run exec_error_def)

text \<open>
  C6 (as amended). \<open>initializeStorage\<close> issues one \<open>exec\<close> and nothing else: the storage
  script (\<open>kafka-storage.sh\<close> in the distribution's \<open>bin\<close>, \<open>windows/kafka-storage.bat\<close>
  on Windows) with \<open>format\<close>, a cluster id that the shell takes from the same script's
  \<open>random-uuid\<close>, the given config file after \<open>-c\<close>, and \<open>--standalone\<close>. Its promise
  always settles. It is rejected, with the error of \<open>exec\<close>, whenever the command exits
  with a code other than 0; it is rejected as well when the command is killed by a signal
  or \<open>exec\<close> itself fails, whatever the exit code; in every other case it is resolved with
  no value.
\<close>

theorem initializeStorage_once:
  fixes w :: world and propertiesFile :: path
  defines "script \<equiv> (if IS_WINDOWS w then path_join w [KAFKA_BIN w, ''windows'', ''kafka-storage.bat'']
                      else path_join w [KAFKA_BIN w, ''kafka-storage.sh''])"
  defines "command \<equiv> script @ '' format -t '' @ [CHR 0x22] @ ''$('' @ script @ '' random-uuid)''
                       @ [CHR 0x22] @ '' -c '' @ propertiesFile @ '' --standalone''"
  defines "r \<equiv> exec_run w command"
  shows "trace (snd (initializeStorage w this propertiesFile s)) = trace s @ [Exec command]
   \<and> (\<forall>c. ex_status r = Exited c \<and> c \<noteq> 0
          \<longrightarrow> fst (initializeStorage w this propertiesFile s) = Rejected (StorageInitError r))
   \<and> ((\<exists>e. fst (initializeStorage w this propertiesFile s) = Rejected e)
        = (ex_status r \<noteq> Exited 0 \<or> ex_failure r \<noteq> None))
   \<and> ((fst (initializeStorage w this propertiesFile s) = Rejected (StorageInitError r))
        = (ex_status r \<noteq> Exited 0 \<or> ex_failure r \<noteq> None))
   \<and> ((fst (initializeStorage w this propertiesFile s) = Resolved ())
        = (ex_status r = Exited 0 \<and> ex_failure r = None))"
proof -
  have script: "storage_script w = script"
    by (simp add: storage_script_def kafka_script_def script_def)
  have command: "storage_command (storage_script w) propertiesFile = command"
    by (simp add: storage_command_def script command_def)
  have t: "trace (snd (initializeStorage w this propertiesFile s)) = trace s @ [Exec command]"
    by (simp add: initializeStorage_run command)
  have res: "fst (initializeStorage w this propertiesFile s)
      = (if ex_status r = Exited 0 \<and> ex_failure r = None then Resolved ()
         else Rejected (StorageInitError r))"
    by (simp add: initializeStorage_result command r_def)
  have nz: "\<forall>c. ex_status r = Exited c \<and> c \<noteq> 0
          \<longrightarrow> fst (initializeStorage w this propertiesFile s) = Rejected (StorageInitError r)"
    by (simp add: res)
  have rej: "(\<exists>e. fst (initializeStorage w this propertiesFile s) = Rejected e)
        = (ex_status r \<noteq> Exited 0 \<or> ex_failure r \<noteq> None)"
    by (auto simp: res)
  have rej': "(fst (initializeStorage w this propertiesFile s) = Rejected (StorageInitError r))
        = (ex_status r \<noteq> Exited 0 \<or> ex_failure r \<noteq> None)"
    by (auto simp: res)
  have ok: "(fst (initializeStorage w this propertiesFile s) = Resolved ())
        = (ex_status r = Exited 0 \<and> ex_failure r = None)"
    by (auto simp: res)
  from t nz rej rej' ok show ?thesis by blast
qed

lemma foldl_on_data_trace: "trace (foldl (on_data this) s ds) = trace s"
proof (induction ds arbitrary: s)
  case Nil
  show ?case by simp
next
  case (Cons d ds)
  obtain st c where d: "d = (st, c)" by (cases d)
  have "trace (on_data this s d) = trace s"
    unfolding d by (cases st) (simp_all add: decoder_write_def)
  with Cons.IH [of "on_data this s d"] show ?case by simp
qed

lemma foldl_on_data_procs: "procs (foldl (on_data this) s ds) = procs s"
proof (induction ds arbitrary: s)
  case Nil
  show ?case by simp
next
  case (Cons d ds)
  obtain st c where d: "d = (st, c)" by (cases d)
  have "procs (on_data this s d) = procs s"
    unfolding d by (cases st) (simp_all add: decoder_write_def)
  with Cons.IH [of "on_data this s d"] show ?case by simp
qed

lemma startKafkaProcess_throws:
  assumes "spawn_result w (start_script w) (Some kafkaDir) = SpawnThrows err"
  shows "startKafkaProcess w this kafkaDir kPort s =
     (Rejected (ProcessSpawnError err),
      s\<lparr>trace := trace s @ [Spawn (start_script w) [path_join w [kafkaDir, ''server.properties'']]
                    (AList.update ''JMX_PORT'' '''' (process_env w)) (Some kafkaDir)]\<rparr>)"
  using assms by (simp add: startKafkaProcess_def Let_def)

lemma startKafkaProcess_trace:
  "trace (snd (startKafkaProcess w this kafkaDir kPort s))
     = trace s @ Spawn (start_script w) [path_join w [kafkaDir, ''server.properties'']]
                    (AList.update ''JMX_PORT'' '''' (process_env w)) (Some kafkaDir)
               # (case spawn_result w (start_script w) (Some kafkaDir) of
                    SpawnThrows err \<Rightarrow> []
                  | _ \<Rightarrow> [Timeout WAIT_TIME])"
  by (simp add: startKafkaProcess_def Let_def foldl_on_data_trace split: spawn_outcome.splits)

lemma startKafkaProcess_procs:
  "procs (snd (startKafkaProcess w this kafkaDir kPort s))
     = procs s @ (case spawn_result w (start_script w) (Some kafkaDir) of
                    Launched \<Rightarrow> [Running]
                  | LaunchError err \<Rightarrow> [NotLaunched]
                  | SpawnThrows err \<Rightarrow> [])"
  by (simp add: startKafkaProcess_def Let_def foldl_on_data_procs split: spawn_outcome.splits)

lemma startKafkaProcess_result:
  "fst (startKafkaProcess w this kafkaDir kPort s)
     = (case spawn_result w (start_script w) (Some kafkaDir) of
          SpawnThrows err \<Rightarrow> Rejected (ProcessSpawnError err)
        | _ \<Rightarrow> Resolved \<lparr>h_kafkaPort = kPort, h_this = this,
                           h_kafkaProcess = length (procs s)\<rparr>)"
  by (simp add: startKafkaProcess_def Let_def split: spawn_outcome.splits)

lemma createKafkaConfig_Resolved:
  "createKafkaConfig w this kafkaDir cPort kPort s = (Resolved f, s')
     \<Longrightarrow> f = path_join w [kafkaDir, ''server.properties'']"
  by (auto simp: createKafkaConfig_def Let_def split: sum.splits)

text \<open>
  C7. The first thing \<open>startKafkaProcess\<close> does is to spawn the start script with the
  file \<open>server.properties\<close> of the workspace as its only argument, the workspace as
  working directory, and an environment that maps \<open>JMX_PORT\<close> to the empty string and
  agrees with \<open>process.env\<close> on every other variable. The argument is the path that
  \<open>createKafkaConfig\<close> resolves with for the same workspace, and the start script is
  \<open>kafka-server-start.sh\<close> in the distribution's \<open>bin\<close> (\<open>windows/kafka-server-start.bat\<close>
  on Windows). Unless \<open>spawn\<close> throws, the only other event is the expiry of the timer.
\<close>

theorem spawn_arguments:
  "\<exists>child_env.
      trace (snd (startKafkaProcess w this kafkaDir kPort s))
        = trace s @ Spawn (start_script w) [path_join w [kafkaDir, ''server.properties'']]
                      child_env (Some kafkaDir)
                  # (case spawn_result w (start_script w) (Some kafkaDir) of
                       SpawnThrows err \<Rightarrow> []
                     | _ \<Rightarrow> [Timeout WAIT_TIME])
    \<and> map_of child_env = (map_of (process_env w))(''JMX_PORT'' \<mapsto> '''')
    \<and> (\<forall>cPort s0 f s1. createKafkaConfig w this kafkaDir cPort kPort s0 = (Resolved f, s1)
          \<longrightarrow> f = path_join w [kafkaDir, ''server.properties''])
    \<and> start_script w
        = (if IS_WINDOWS w then path_join w [KAFKA_BIN w, ''windows'', ''kafka-server-start.bat'']
           else path_join w [KAFKA_BIN w, ''kafka-server-start.sh''])"
proof -
  have "map_of (AList.update ''JMX_PORT'' '''' (process_env w))
          = (map_of (process_env w))(''JMX_PORT'' \<mapsto> '''')"
    by (rule update_conv')
  moreover have "start_script w
        = (if IS_WINDOWS w then path_join w [KAFKA_BIN w, ''windows'', ''kafka-server-start.bat'']
           else path_join w [KAFKA_BIN w, ''kafka-server-start.sh''])"
    by (simp add: start_script_def kafka_script_def)
  ultimately show ?thesis
    using startKafkaProcess_trace [of w this kafkaDir kPort s]
      createKafkaConfig_Resolved [of w this kafkaDir]
    by blast
qed

text \<open>
  C2 (as amended). When the start script cannot be launched and \<open>spawn\<close> says so through
  the child's \<open>error\<close> event, \<open>startKafkaProcess\<close> does not fail: it waits \<open>WAIT_TIME\<close>
  (10000 ms) and resolves with a handle, and the child the handle refers to was never launched. When
  \<open>spawn\<close> itself throws, the promise is rejected with that error, no child is recorded
  and no timer is set.
\<close>

theorem launch_failure_still_resolves:
  "(spawn_result w (start_script w) (Some kafkaDir) = LaunchError err \<longrightarrow>
       fst (startKafkaProcess w this kafkaDir kPort s)
         = Resolved \<lparr>h_kafkaPort = kPort, h_this = this, h_kafkaProcess = length (procs s)\<rparr>
     \<and> procs (snd (startKafkaProcess w this kafkaDir kPort s)) = procs s @ [NotLaunched]
     \<and> trace (snd (startKafkaProcess w this kafkaDir kPort s))
         = trace s @ [Spawn (start_script w) [path_join w [kafkaDir, ''server.properties'']]
                        (AList.update ''JMX_PORT'' '''' (process_env w)) (Some kafkaDir),
                      Timeout WAIT_TIME])
   \<and> (spawn_result w (start_script w) (Some kafkaDir) = SpawnThrows err \<longrightarrow>
       fst (startKafkaProcess w this kafkaDir kPort s) = Rejected (ProcessSpawnError err)
     \<and> procs (snd (startKafkaProcess w this kafkaDir kPort s)) = procs s
     \<and> trace (snd (startKafkaProcess w this kafkaDir kPort s))
         = trace s @ [Spawn (start_script w) [path_join w [kafkaDir, ''server.properties'']]
                        (AList.update ''JMX_PORT'' '''' (process_env w)) (Some kafkaDir)])
   \<and> WAIT_TIME = 10000"
  by (simp add: startKafkaProcess_result startKafkaProcess_procs startKafkaProcess_trace
        WAIT_TIME_def)

lemmas eval_world = world0_def world_no_launch_def world_spawn_throws_def world_exec_fails_def
  world_exec_overflow_def start_script_def stop_script_def storage_script_def kafka_script_def
  posix_join_workspace posix_join_template state1_def state0_def
  new_KafkaManager_def BASE_PORT_def WAIT_TIME_def Let_def

text \<open>
  C2 as stated fails: on a host where the start script is missing, so that \<open>spawn\<close>
  reports \<open>ENOENT\<close> through the \<open>error\<close> event, the promise of \<open>startKafkaProcess\<close> is
  resolved with a handle, not rejected.
\<close>

theorem launch_failure_counterexample:
  "spawn_result world_no_launch (start_script world_no_launch) (Some ''/tmp/kafka-0'')
     = LaunchError ''ENOENT''
   \<and> fst (startKafkaProcess world_no_launch 0 ''/tmp/kafka-0'' 18001 state1)
       = Resolved \<lparr>h_kafkaPort = 18001, h_this = 0, h_kafkaProcess = 0\<rparr>"
  by (simp add: startKafkaProcess_def eval_world)

theorem launch_failure_still_resolves_witness:
  "spawn_result world_no_launch (start_script world_no_launch) (Some ''/tmp/kafka-0'')
     = LaunchError ''ENOENT''
   \<and> fst (startKafkaProcess world_no_launch 0 ''/tmp/kafka-0'' 18001 state1)
       = Resolved \<lparr>h_kafkaPort = 18001, h_this = 0, h_kafkaProcess = 0\<rparr>
   \<and> procs (snd (startKafkaProcess world_no_launch 0 ''/tmp/kafka-0'' 18001 state1)) = [NotLaunched]
   \<and> trace (snd (startKafkaProcess world_no_launch 0 ''/tmp/kafka-0'' 18001 state1))
       = [Spawn ''/k/bin/kafka-server-start.sh'' [''/tmp/kafka-0/server.properties'']
            [(''JMX_PORT'', ''''), (''HOME'', ''/root'')] (Some ''/tmp/kafka-0''),
          Timeout 10000]
   \<and> spawn_result world_spawn_throws (start_script world_spawn_throws) (Some ''/tmp/kafka-0'')
     = SpawnThrows ''ELOOP''
   \<and> fst (startKafkaProcess world_spawn_throws 0 ''/tmp/kafka-0'' 18001 state1)
       = Rejected (ProcessSpawnError ''ELOOP'')
   \<and> procs (snd (startKafkaProcess world_spawn_throws 0 ''/tmp/kafka-0'' 18001 state1)) = []
   \<and> trace (snd (startKafkaProcess world_spawn_throws 0 ''/tmp/kafka-0'' 18001 state1))
       = [Spawn ''/k/bin/kafka-server-start.sh'' [''/tmp/kafka-0/server.properties'']
            [(''JMX_PORT'', ''''), (''HOME'', ''/root'')] (Some ''/tmp/kafka-0'')]"
proof -
  have a: "spawn_result world_no_launch (start_script world_no_launch) (Some ''/tmp/kafka-0'')
     = LaunchError ''ENOENT''"
    by (simp add: eval_world)
  have b: "spawn_result world_spawn_throws (start_script world_spawn_throws) (Some ''/tmp/kafka-0'')
     = SpawnThrows ''ELOOP''"
    by (simp add: eval_world)
  from a launch_failure_still_resolves
    [of world_no_launch "''/tmp/kafka-0''" "''ENOENT''" 0 18001 state1]
  have 1: "fst (startKafkaProcess world_no_launch 0 ''/tmp/kafka-0'' 18001 state1)
       = Resolved \<lparr>h_kafkaPort = 18001, h_this = 0, h_kafkaProcess = 0\<rparr>
   \<and> procs (snd (startKafkaProcess world_no_launch 0 ''/tmp/kafka-0'' 18001 state1)) = [NotLaunched]
   \<and> trace (snd (startKafkaProcess world_no_launch 0 ''/tmp/kafka-0'' 18001 state1))
       = [Spawn ''/k/bin/kafka-server-start.sh'' [''/tmp/kafka-0/server.properties'']
            [(''JMX_PORT'', ''''), (''HOME'', ''/root'')] (Some ''/tmp/kafka-0''),
          Timeout 10000]"
    by (simp add: eval_world)
  from b launch_failure_still_resolves
    [of world_spawn_throws "''/tmp/kafka-0''" "''ELOOP''" 0 18001 state1]
  have 2: "fst (startKafkaProcess world_spawn_throws 0 ''/tmp/kafka-0'' 18001 state1)
       = Rejected (ProcessSpawnError ''ELOOP'')
   \<and> procs (snd (startKafkaProcess world_spawn_throws 0 ''/tmp/kafka-0'' 18001 state1)) = []
   \<and> trace (snd (startKafkaProcess world_spawn_throws 0 ''/tmp/kafka-0'' 18001 state1))
       = [Spawn ''/k/bin/kafka-server-start.sh'' [''/tmp/kafka-0/server.properties'']
            [(''JMX_PORT'', ''''), (''HOME'', ''/root'')] (Some ''/tmp/kafka-0'')]"
    by (simp add: eval_world)
  from a b 1 2 show ?thesis by simp
qed

theorem spawn_arguments_witness:
  "trace (snd (startKafkaProcess world0 0 ''/tmp/kafka-0'' 18001 state1))
       = [Spawn ''/k/bin/kafka-server-start.sh'' [''/tmp/kafka-0/server.properties'']
            [(''JMX_PORT'', ''''), (''HOME'', ''/root'')] (Some ''/tmp/kafka-0''),
          Timeout 10000]
   \<and> fst (createKafkaConfig world0 0 ''/tmp/kafka-0'' 18003 18001 state1)
       = Resolved ''/tmp/kafka-0/server.properties''"
proof -
  let ?run = "createKafkaConfig world0 0 ''/tmp/kafka-0'' 18003 18001 state1"
  from spawn_arguments [of world0 0 "''/tmp/kafka-0''" 18001 state1]
  obtain child_env where
    t: "trace (snd (startKafkaProcess world0 0 ''/tmp/kafka-0'' 18001 state1))
        = trace state1 @ Spawn (start_script world0)
              [path_join world0 [''/tmp/kafka-0'', ''server.properties'']]
              child_env (Some ''/tmp/kafka-0'')
            # (case spawn_result world0 (start_script world0) (Some ''/tmp/kafka-0'') of
                 SpawnThrows err \<Rightarrow> []
               | _ \<Rightarrow> [Timeout WAIT_TIME])"
    and f: "\<forall>cPort s0 f s1.
        createKafkaConfig world0 0 ''/tmp/kafka-0'' cPort 18001 s0 = (Resolved f, s1)
          \<longrightarrow> f = path_join world0 [''/tmp/kafka-0'', ''server.properties'']"
    by blast
  have c: "fst ?run = Resolved ''/tmp/kafka-0/server.properties''"
    by (simp add: eval_config)
  then have "?run = (Resolved ''/tmp/kafka-0/server.properties'', snd ?run)"
    by (simp add: prod_eq_iff)
  with f have "''/tmp/kafka-0/server.properties''
      = path_join world0 [''/tmp/kafka-0'', ''server.properties'']"
    by blast
  have "trace (snd (startKafkaProcess world0 0 ''/tmp/kafka-0'' 18001 state1))
       = [Spawn ''/k/bin/kafka-server-start.sh'' [''/tmp/kafka-0/server.properties'']
            [(''JMX_PORT'', ''''), (''HOME'', ''/root'')] (Some ''/tmp/kafka-0''),
          Timeout 10000]"
    by (simp add: startKafkaProcess_trace eval_world)
  with c show ?thesis by simp
qed

text \<open>
  C6 as stated fails: when the output of the command outgrows \<open>maxBuffer\<close>, \<open>exec\<close> calls
  back with an error although the command exits with code 0, and the promise is
  rejected.
\<close>

theorem initializeStorage_rejects_at_exit_0_counterexample:
  "ex_status (exec_run world_exec_overflow
       (storage_command (storage_script world_exec_overflow) ''/tmp/kafka-0/server.properties''))
     = Exited 0
   \<and> fst (initializeStorage world_exec_overflow 0 ''/tmp/kafka-0/server.properties'' state1)
       = Rejected (StorageInitError \<lparr>ex_status = Exited 0, ex_failure = Some ''maxBuffer''\<rparr>)"
  by (simp add: initializeStorage_result world_exec_overflow_def)

theorem initializeStorage_once_witness:
  "fst (initializeStorage world0 0 ''/tmp/kafka-0/server.properties'' state1) = Resolved ()
   \<and> ex_status (exec_run world_exec_fails
        (''/k/bin/kafka-storage.sh format -t '' @ [CHR 0x22]
                @ ''$(/k/bin/kafka-storage.sh random-uuid)'' @ [CHR 0x22]
                @ '' -c /tmp/kafka-0/server.properties --standalone'')) = Exited 1
   \<and> fst (initializeStorage world_exec_fails 0 ''/tmp/kafka-0/server.properties'' state1)
       = Rejected (StorageInitError \<lparr>ex_status = Exited 1, ex_failure = None\<rparr>)
   \<and> trace (snd (initializeStorage world0 0 ''/tmp/kafka-0/server.properties'' state1))
       = [Exec (''/k/bin/kafka-storage.sh format -t '' @ [CHR 0x22]
                @ ''$(/k/bin/kafka-storage.sh random-uuid)'' @ [CHR 0x22]
                @ '' -c /tmp/kafka-0/server.properties --standalone'')]"
  using initializeStorage_once [of world0 0 "''/tmp/kafka-0/server.properties''" state1]
    initializeStorage_once [of world_exec_fails 0 "''/tmp/kafka-0/server.properties''" state1]
  by (simp add: eval_world)

lemma killProcess_live:
  "live s p \<Longrightarrow> killProcess w this p s =
     (Resolved (), s\<lparr>procs := (procs s)[p := Dead],
                     trace := trace s @ [Kill p SIGKILL, ExitEvent p]\<rparr>)"
  by (simp add: killProcess_def live_def Let_def)

lemma killProcess_not_live:
  "\<not> live s p \<Longrightarrow> killProcess w this p s = (Pending, s\<lparr>trace := trace s @ [Kill p SIGKILL]\<rparr>)"
  by (auto simp: killProcess_def live_def Let_def)

lemma stopKafkaServer_trace:
  "trace (snd (stopKafkaServer w this s)) =
     trace s @ Spawn (stop_script w) [] (process_env w) None
             # (case spawn_result w (stop_script w) None of
                  Launched \<Rightarrow> [ExitEvent (length (procs s))]
                | LaunchError err \<Rightarrow> [UncaughtError (length (procs s))]
                | SpawnThrows err \<Rightarrow> [])"
  by (simp add: stopKafkaServer_def Let_def split: spawn_outcome.splits)

lemma stopKafkaServer_procs:
  "procs (snd (stopKafkaServer w this s)) =
     procs s @ (case spawn_result w (stop_script w) None of
                  Launched \<Rightarrow> [Dead]
                | LaunchError err \<Rightarrow> [NotLaunched]
                | SpawnThrows err \<Rightarrow> [])"
  by (simp add: stopKafkaServer_def Let_def split: spawn_outcome.splits)

lemma stopKafkaServer_result:
  "fst (stopKafkaServer w this s) =
     (case spawn_result w (stop_script w) None of
        Launched \<Rightarrow> Resolved (script_exit w (stop_script w))
      | LaunchError err \<Rightarrow> Pending
      | SpawnThrows err \<Rightarrow> Rejected (ProcessSpawnError err))"
  by (simp add: stopKafkaServer_def Let_def split: spawn_outcome.splits)

text \<open>
  C4. \<open>close\<close> on a handle whose child is running appends to the trace, in this
  order: the \<open>SIGKILL\<close> sent to the child, the child's exit event, the spawn of the stop
  script, and what becomes of the stop script (its exit, with whose code the promise
  resolves; an uncaught error event, with the promise pending; or nothing, with the
  promise rejected, when the spawn throws). When the child is not running the exit event
  never comes: the trace ends with the kill, the promise stays pending and the stop
  script is not started. The stop script is \<open>kafka-server-stop.sh\<close> in the distribution's
  \<open>bin\<close> (\<open>windows/kafka-server-stop.bat\<close> on Windows).
\<close>

theorem close_is_ordered:
  assumes "close w h s = (out, s')"
  shows "(live s (h_kafkaProcess h) \<longrightarrow>
            trace s' = trace s @
              [Kill (h_kafkaProcess h) SIGKILL, ExitEvent (h_kafkaProcess h),
               Spawn (stop_script w) [] (process_env w) None]
              @ (case spawn_result w (stop_script w) None of
                   Launched \<Rightarrow> [ExitEvent (length (procs s))]
                 | LaunchError err \<Rightarrow> [UncaughtError (length (procs s))]
                 | SpawnThrows err \<Rightarrow> [])
          \<and> out = (case spawn_result w (stop_script w) None of
                      Launched \<Rightarrow> Resolved (script_exit w (stop_script w))
                    | LaunchError err \<Rightarrow> Pending
                    | SpawnThrows err \<Rightarrow> Rejected (ProcessSpawnError err))
          \<and> \<not> live s' (h_kafkaProcess h))
       \<and> (\<not> live s (h_kafkaProcess h) \<longrightarrow>
            trace s' = trace s @ [Kill (h_kafkaProcess h) SIGKILL] \<and> out = Pending)
       \<and> stop_script w
           = (if IS_WINDOWS w then path_join w [KAFKA_BIN w, ''windows'', ''kafka-server-stop.bat'']
              else path_join w [KAFKA_BIN w, ''kafka-server-stop.sh''])"
proof (intro conjI impI)
  show "stop_script w
           = (if IS_WINDOWS w then path_join w [KAFKA_BIN w, ''windows'', ''kafka-server-stop.bat'']
              else path_join w [KAFKA_BIN w, ''kafka-server-stop.sh''])"
    by (simp add: stop_script_def kafka_script_def)
next
  assume l: "live s (h_kafkaProcess h)"
  define s1 where "s1 = s\<lparr>procs := (procs s)[h_kafkaProcess h := Dead],
      trace := trace s @ [Kill (h_kafkaProcess h) SIGKILL, ExitEvent (h_kafkaProcess h)]\<rparr>"
  from l have "close w h s = stopKafkaServer w (h_this h) s1"
    unfolding close_def s1_def by (simp add: await_then_step [OF killProcess_live])
  with assms have out: "out = fst (stopKafkaServer w (h_this h) s1)"
    and s': "s' = snd (stopKafkaServer w (h_this h) s1)" by simp_all
  show "trace s' = trace s @
              [Kill (h_kafkaProcess h) SIGKILL, ExitEvent (h_kafkaProcess h),
               Spawn (stop_script w) [] (process_env w) None]
              @ (case spawn_result w (stop_script w) None of
                   Launched \<Rightarrow> [ExitEvent (length (procs s))]
                 | LaunchError err \<Rightarrow> [UncaughtError (length (procs s))]
                 | SpawnThrows err \<Rightarrow> [])"
    unfolding s' stopKafkaServer_trace by (simp add: s1_def split: spawn_outcome.splits)
  show "out = (case spawn_result w (stop_script w) None of
                      Launched \<Rightarrow> Resolved (script_exit w (stop_script w))
                    | LaunchError err \<Rightarrow> Pending
                    | SpawnThrows err \<Rightarrow> Rejected (ProcessSpawnError err))"
    unfolding out by (rule stopKafkaServer_result)
  from l show "\<not> live s' (h_kafkaProcess h)"
    unfolding s' live_def stopKafkaServer_procs
    by (simp add: s1_def nth_append split: spawn_outcome.splits)
next
  assume n: "\<not> live s (h_kafkaProcess h)"
  then have "close w h s = (Pending, s\<lparr>trace := trace s @ [Kill (h_kafkaProcess h) SIGKILL]\<rparr>)"
    unfolding close_def by (simp add: await_then_Pending [OF killProcess_not_live])
  with assms have "out = Pending"
    and "s' = s\<lparr>trace := trace s @ [Kill (h_kafkaProcess h) SIGKILL]\<rparr>" by simp_all
  then show "trace s' = trace s @ [Kill (h_kafkaProcess h) SIGKILL]" and "out = Pending"
    by simp_all
qed

text \<open>
  C5. When one of the four provisioning steps rejects, the promise of the factory is
  rejected with the same error, and the state in which the factory leaves the process is
  the state in which the failing step left it: the step ran once and no later step ran.
\<close>

theorem provisioning_errors_are_terminal:
  assumes "new_KafkaManager s = (this, s0)"
  shows "(allocatePorts w this s0 = (Rejected e, s1)
            \<longrightarrow> makeKafkaServer w s = (Rejected e, s1))
       \<and> (allocatePorts w this s0 = (Resolved ports, s1)
          \<and> createTempDirectory w this ''kafka-'' s1 = (Rejected e, s2)
            \<longrightarrow> makeKafkaServer w s = (Rejected e, s2))
       \<and> (allocatePorts w this s0 = (Resolved ports, s1)
          \<and> createTempDirectory w this ''kafka-'' s1 = (Resolved kafkaDir, s2)
          \<and> createKafkaConfig w this kafkaDir (controllerPort ports) (kafkaPort ports) s2
              = (Rejected e, s3)
            \<longrightarrow> makeKafkaServer w s = (Rejected e, s3))
       \<and> (allocatePorts w this s0 = (Resolved ports, s1)
          \<and> createTempDirectory w this ''kafka-'' s1 = (Resolved kafkaDir, s2)
          \<and> createKafkaConfig w this kafkaDir (controllerPort ports) (kafkaPort ports) s2
              = (Resolved propertiesFile, s3)
          \<and> initializeStorage w this propertiesFile s3 = (Rejected e, s4)
            \<longrightarrow> makeKafkaServer w s = (Rejected e, s4))"
proof -
  have mk: "makeKafkaServer w s = startKafkaServer w this s0"
    using assms by (simp add: makeKafkaServer_def)
  show ?thesis
    unfolding mk startKafkaServer_def try_catch_rethrow
    by (simp add: await_then_def)
qed


lemma createKafkaConfig_procs:
  "procs (snd (createKafkaConfig w this d c k s)) = procs s"
  by (simp add: createKafkaConfig_def editor_save_def Let_def split: sum.splits)



lemma new_KafkaManager_eq:
  "new_KafkaManager s = (length (heap s), snd (new_KafkaManager s))"
  by (simp add: new_KafkaManager_def)

lemma makeKafkaServer_eq:
  "makeKafkaServer w s = startKafkaServer w (length (heap s)) (snd (new_KafkaManager s))"
  by (simp add: makeKafkaServer_def new_KafkaManager_def)


text \<open>The concrete run, one step at a time.\<close>

lemma step_allocate:
  "allocatePorts w 0 state1
     = (Resolved \<lparr>kafkaPort = 18001, controllerPort = 18003\<rparr>, state1\<lparr>trace := [GetPorts 2]\<rparr>)"
  by (simp add: eval_ports)

lemma createKafkaConfig_result:
  "map_of (files s) (KAFKA_PROPERTIES w) = Some t \<Longrightarrow>
     fst (createKafkaConfig w this d c k s) = Resolved (path_join w [d, ''server.properties''])"
  by (simp add: createKafkaConfig_def createEditor_def Let_def)

lemma run_to_start:
  fixes f :: "path \<Rightarrow> path option \<Rightarrow> spawn_outcome"
  defines "w \<equiv> world0\<lparr>spawn_result := f\<rparr>"
  shows "\<exists>sD. makeKafkaServer w state0 = startKafkaProcess w 0 ''/tmp/kafka-0'' 18001 sD
           \<and> procs sD = [] \<and> heap sD = heap state1"
proof -
  define sA where "sA = state1\<lparr>trace := [GetPorts 2]\<rparr>"
  define sB where "sB = state1\<lparr>dirs := [''/tmp/kafka-0''], trace := [GetPorts 2, TmpDir ''kafka-'']\<rparr>"
  define sC where "sC = snd (createKafkaConfig w 0 ''/tmp/kafka-0'' 18003 18001 sB)"
  define sD where "sD = snd (initializeStorage w 0 ''/tmp/kafka-0/server.properties'' sC)"
  have a: "allocatePorts w 0 state1
      = (Resolved \<lparr>kafkaPort = 18001, controllerPort = 18003\<rparr>, sA)"
    unfolding sA_def by (rule step_allocate)
  have b: "createTempDirectory w 0 ''kafka-'' sA = (Resolved ''/tmp/kafka-0'', sB)"
    by (simp add: createTempDirectory_def sA_def sB_def w_def eval_world show_nat.simps
          digit_char_def)
  have "map_of (files sB) (KAFKA_PROPERTIES w) = Some [(''node.id'', ''1''),
          (''log.dirs'', ''/tmp/kraft-combined-logs''), (''num.partitions'', ''1'')]"
    by (simp add: sB_def w_def eval_world)
  from createKafkaConfig_result [OF this, of 0 "''/tmp/kafka-0''" 18003 18001]
  have "fst (createKafkaConfig w 0 ''/tmp/kafka-0'' 18003 18001 sB)
          = Resolved ''/tmp/kafka-0/server.properties''"
    by (simp add: w_def eval_world)
  then have c: "createKafkaConfig w 0 ''/tmp/kafka-0'' 18003 18001 sB
          = (Resolved ''/tmp/kafka-0/server.properties'', sC)"
    by (simp add: sC_def prod_eq_iff)
  have "fst (initializeStorage w 0 ''/tmp/kafka-0/server.properties'' sC) = Resolved ()"
    by (simp add: initializeStorage_result w_def world0_def)
  then have d: "initializeStorage w 0 ''/tmp/kafka-0/server.properties'' sC = (Resolved (), sD)"
    by (simp add: sD_def prod_eq_iff)
  have pD: "procs sD = []"
    by (simp add: sD_def sC_def initializeStorage_state createKafkaConfig_procs sB_def eval_world)
  have hD: "heap sD = heap state1"
    by (simp add: sD_def sC_def initializeStorage_state createKafkaConfig_heap sB_def)
  have "makeKafkaServer w state0 = startKafkaServer w 0 state1"
    by (simp add: makeKafkaServer_def state1_def new_KafkaManager_def state0_def)
  also have "\<dots> = startKafkaProcess w 0 ''/tmp/kafka-0'' 18001 sD"
    unfolding startKafkaServer_def try_catch_rethrow
    by (simp add: await_then_step [where m = "allocatePorts w 0", OF a]
          await_then_step [where m = "createTempDirectory w 0 ''kafka-''", OF b]
          await_then_step [where m = "createKafkaConfig w 0 ''/tmp/kafka-0'' 18003 18001", OF c]
          await_then_step [where m = "initializeStorage w 0 ''/tmp/kafka-0/server.properties''",
            OF d])
  finally show ?thesis using pD hD by blast
qed

lemma world0_spawn: "world0\<lparr>spawn_result := (\<lambda>p cwd. Launched)\<rparr> = world0"
  by (simp add: world0_def)

lemma run0: "fst (makeKafkaServer world0 state0) = Resolved handle0"
proof -
  from run_to_start [of "\<lambda>p cwd. Launched"]
  obtain sD where "makeKafkaServer world0 state0
      = startKafkaProcess world0 0 ''/tmp/kafka-0'' 18001 sD" and "procs sD = []"
    unfolding world0_spawn by blast
  then show ?thesis
    by (simp add: startKafkaProcess_result handle0_def world0_def)
qed


lemma createTempDirectory_Inr:
  "tmp_dir w (length (dirs s)) prefix = Inr p \<Longrightarrow>
     createTempDirectory w this prefix s
       = (Resolved p, s\<lparr>dirs := dirs s @ [p], trace := trace s @ [TmpDir prefix]\<rparr>)"
  by (simp add: createTempDirectory_def Let_def)

lemma createTempDirectory_Inl:
  "tmp_dir w (length (dirs s)) prefix = Inl m \<Longrightarrow>
     createTempDirectory w this prefix s
       = (Rejected (FilesystemError m), s\<lparr>trace := trace s @ [TmpDir prefix]\<rparr>)"
  by (simp add: createTempDirectory_def Let_def)

lemma createKafkaConfig_no_template:
  "map_of (files s) (KAFKA_PROPERTIES w) = None \<Longrightarrow>
     createKafkaConfig w this d c k s
       = (Rejected (ConfigError (KAFKA_PROPERTIES w)),
          s\<lparr>trace := trace s @ [CreateEditor (KAFKA_PROPERTIES w)]\<rparr>)"
  by (simp add: createKafkaConfig_def createEditor_def Let_def)

lemma createKafkaConfig_trace_ok:
  "map_of (files s) (KAFKA_PROPERTIES w) = Some t \<Longrightarrow>
     trace (snd (createKafkaConfig w this d c k s))
       = trace s @ [CreateEditor (KAFKA_PROPERTIES w), Save (path_join w [d, ''server.properties''])]"
  by (simp add: createKafkaConfig_def createEditor_def editor_save_def Let_def)

lemma allocatePorts_no_ports:
  assumes "\<forall>q. portfinder_basePort s \<le> q \<and> q \<le> highestPort \<longrightarrow> \<not> bindable s q"
  shows "allocatePorts w this s
           = (Rejected (PortAllocationError ''No open ports available''),
              s\<lparr>trace := trace s @ [GetPorts 2]\<rparr>)"
  using portfinder_scan_None [OF assms]
  by (simp add: allocatePorts_def portfinder_getPorts_def numeral_2_eq_2 Let_def)

lemma allocatePorts_concrete:
  assumes "busy s = [18000, 18002]" and "portfinder_basePort s = 18000"
  shows "allocatePorts w this s
           = (Resolved \<lparr>kafkaPort = 18001, controllerPort = 18003\<rparr>,
              s\<lparr>trace := trace s @ [GetPorts 2]\<rparr>)"
  using assms
  by (simp add: allocatePorts_def portfinder_getPorts_def numeral_2_eq_2 portfinder_scan.simps
        bindable_def highestPort_def Let_def)

theorem provisioning_errors_are_terminal_witness:
  "makeKafkaServer world0 state_no_ports
     = (Rejected (PortAllocationError ''No open ports available''),
        (snd (new_KafkaManager state_no_ports))\<lparr>trace := [GetPorts 2]\<rparr>)
   \<and> fst (makeKafkaServer world_no_tmp state0) = Rejected (FilesystemError ''EACCES'')
   \<and> trace (snd (makeKafkaServer world_no_tmp state0)) = [GetPorts 2, TmpDir ''kafka-'']
   \<and> fst (makeKafkaServer world0 state_no_template)
       = Rejected (ConfigError ''/k/config/server.properties'')
   \<and> trace (snd (makeKafkaServer world0 state_no_template))
       = [GetPorts 2, TmpDir ''kafka-'', CreateEditor ''/k/config/server.properties'']
   \<and> fst (makeKafkaServer world_exec_fails state0)
       = Rejected (StorageInitError \<lparr>ex_status = Exited 1, ex_failure = None\<rparr>)
   \<and> trace (snd (makeKafkaServer world_exec_fails state0))
       = [GetPorts 2, TmpDir ''kafka-'', CreateEditor ''/k/config/server.properties'',
          Save ''/tmp/kafka-0/server.properties'',
          Exec (storage_command ''/k/bin/kafka-storage.sh'' ''/tmp/kafka-0/server.properties'')]"
proof -
  let ?pp = "\<lparr>kafkaPort = 18001, controllerPort = 18003\<rparr>"
  \<comment> \<open>no port is free\<close>
  define n0 where "n0 = snd (new_KafkaManager state_no_ports)"
  have n: "new_KafkaManager state_no_ports = (0, n0)"
    by (simp add: n0_def new_KafkaManager_def state_no_ports_def state0_def)
  have mem: "q \<in> set ports_from_base \<longleftrightarrow> 18000 \<le> q \<and> q < 65536" for q
    by (simp only: ports_from_base_def set_upt atLeastLessThan_iff)
  have "\<forall>q. portfinder_basePort n0 \<le> q \<and> q \<le> highestPort \<longrightarrow> \<not> bindable n0 q"
    by (simp add: n0_def new_KafkaManager_def state_no_ports_def state0_def BASE_PORT_def
          highestPort_def bindable_def mem)
  from allocatePorts_no_ports [OF this, of world0 0]
  have n1: "allocatePorts world0 0 n0
      = (Rejected (PortAllocationError ''No open ports available''), n0\<lparr>trace := [GetPorts 2]\<rparr>)"
    by (simp add: n0_def new_KafkaManager_def state_no_ports_def state0_def)
  from provisioning_errors_are_terminal [OF n, where w = world0] n1
  have A: "makeKafkaServer world0 state_no_ports
     = (Rejected (PortAllocationError ''No open ports available''), n0\<lparr>trace := [GetPorts 2]\<rparr>)"
    by blast
  \<comment> \<open>the temporary directory cannot be created\<close>
  have m: "new_KafkaManager state0 = (0, state1)"
    by (simp add: state1_def new_KafkaManager_def state0_def)
  define sA where "sA = state1\<lparr>trace := [GetPorts 2]\<rparr>"
  have a: "allocatePorts w 0 state1 = (Resolved ?pp, sA)" for w
    unfolding sA_def
    by (subst allocatePorts_concrete) (simp_all add: eval_world)
  have "createTempDirectory world_no_tmp 0 ''kafka-'' sA
      = (Rejected (FilesystemError ''EACCES''), sA\<lparr>trace := trace sA @ [TmpDir ''kafka-'']\<rparr>)"
    by (rule createTempDirectory_Inl) (simp add: world_no_tmp_def)
  with provisioning_errors_are_terminal [OF m, where w = world_no_tmp] a
  have B: "makeKafkaServer world_no_tmp state0
      = (Rejected (FilesystemError ''EACCES''), sA\<lparr>trace := trace sA @ [TmpDir ''kafka-'']\<rparr>)"
    by blast
  \<comment> \<open>the template cannot be read\<close>
  define t0 where "t0 = snd (new_KafkaManager state_no_template)"
  define tA where "tA = t0\<lparr>trace := [GetPorts 2]\<rparr>"
  define tB where "tB = tA\<lparr>dirs := [''/tmp/kafka-0''], trace := [GetPorts 2, TmpDir ''kafka-'']\<rparr>"
  have t: "new_KafkaManager state_no_template = (0, t0)"
    by (simp add: t0_def new_KafkaManager_def state_no_template_def state0_def)
  have ta: "allocatePorts world0 0 t0 = (Resolved ?pp, tA)"
    unfolding tA_def
    by (subst allocatePorts_concrete)
       (simp_all add: t0_def new_KafkaManager_def state_no_template_def state0_def BASE_PORT_def)
  have tb: "createTempDirectory world0 0 ''kafka-'' tA = (Resolved ''/tmp/kafka-0'', tB)"
    unfolding tB_def
    by (subst createTempDirectory_Inr [where p = "''/tmp/kafka-0''"])
       (simp_all add: tA_def t0_def new_KafkaManager_def state_no_template_def state0_def
          world0_def show_nat.simps digit_char_def)
  have tc: "createKafkaConfig world0 0 ''/tmp/kafka-0'' (controllerPort ?pp) (kafkaPort ?pp) tB
      = (Rejected (ConfigError (KAFKA_PROPERTIES world0)),
         tB\<lparr>trace := trace tB @ [CreateEditor (KAFKA_PROPERTIES world0)]\<rparr>)"
    by (rule createKafkaConfig_no_template)
       (simp add: tB_def tA_def t0_def new_KafkaManager_def state_no_template_def state0_def)
  from provisioning_errors_are_terminal [OF t, where w = world0] ta tb tc
  have C: "makeKafkaServer world0 state_no_template
      = (Rejected (ConfigError (KAFKA_PROPERTIES world0)),
         tB\<lparr>trace := trace tB @ [CreateEditor (KAFKA_PROPERTIES world0)]\<rparr>)"
    by blast
  \<comment> \<open>the format command exits with 1\<close>
  define sB where "sB = sA\<lparr>dirs := [''/tmp/kafka-0''], trace := [GetPorts 2, TmpDir ''kafka-'']\<rparr>"
  define sC where "sC = snd (createKafkaConfig world_exec_fails 0 ''/tmp/kafka-0'' 18003 18001 sB)"
  define sD where "sD = snd (initializeStorage world_exec_fails 0 ''/tmp/kafka-0/server.properties'' sC)"
  have tmpl: "map_of (files sB) (KAFKA_PROPERTIES world_exec_fails)
      = Some [(''node.id'', ''1''), (''log.dirs'', ''/tmp/kraft-combined-logs''),
              (''num.partitions'', ''1'')]"
    by (simp add: sB_def sA_def eval_world)
  have b: "createTempDirectory world_exec_fails 0 ''kafka-'' sA = (Resolved ''/tmp/kafka-0'', sB)"
    unfolding sB_def
    by (subst createTempDirectory_Inr [where p = "''/tmp/kafka-0''"])
       (simp_all add: sA_def eval_world show_nat.simps digit_char_def)
  have c: "createKafkaConfig world_exec_fails 0 ''/tmp/kafka-0'' (controllerPort ?pp) (kafkaPort ?pp) sB
      = (Resolved ''/tmp/kafka-0/server.properties'', sC)"
    using createKafkaConfig_result [OF tmpl, of 0 "''/tmp/kafka-0''" 18003 18001]
    by (simp add: sC_def prod_eq_iff eval_world)
  have d: "initializeStorage world_exec_fails 0 ''/tmp/kafka-0/server.properties'' sC
      = (Rejected (StorageInitError \<lparr>ex_status = Exited 1, ex_failure = None\<rparr>), sD)"
    by (simp add: sD_def prod_eq_iff initializeStorage_result world_exec_fails_def world0_def)
  from provisioning_errors_are_terminal [OF m, where w = world_exec_fails] a b c d
  have D: "makeKafkaServer world_exec_fails state0
      = (Rejected (StorageInitError \<lparr>ex_status = Exited 1, ex_failure = None\<rparr>), sD)"
    by blast
  have trD: "trace sD = [GetPorts 2, TmpDir ''kafka-'', CreateEditor ''/k/config/server.properties'',
          Save ''/tmp/kafka-0/server.properties'',
          Exec (storage_command ''/k/bin/kafka-storage.sh'' ''/tmp/kafka-0/server.properties'')]"
  proof -
    have "trace sC = trace sB @ [CreateEditor (KAFKA_PROPERTIES world_exec_fails),
        Save (path_join world_exec_fails [''/tmp/kafka-0'', ''server.properties''])]"
      unfolding sC_def by (rule createKafkaConfig_trace_ok [OF tmpl])
    then show ?thesis
      unfolding sD_def initializeStorage_state by (simp add: sB_def eval_world)
  qed
  from A B C D trD show ?thesis
    by (simp add: n0_def sA_def tB_def world0_def)
qed



theorem close_is_ordered_witness:
  "live state_live (h_kafkaProcess handle0)
   \<and> fst (close world0 handle0 state_live) = Resolved (Some 0)
   \<and> trace (snd (close world0 handle0 state_live)) = trace state_live @
       [Kill 0 SIGKILL, ExitEvent 0,
        Spawn ''/k/bin/kafka-server-stop.sh'' [] [(''JMX_PORT'', ''9999''), (''HOME'', ''/root'')] None,
        ExitEvent 1]
   \<and> \<not> live (snd (close world0 handle0 state_live)) (h_kafkaProcess handle0)
   \<and> fst (close world0 handle0 (snd (close world0 handle0 state_live))) = Pending
   \<and> trace (snd (close world0 handle0 (snd (close world0 handle0 state_live))))
       = trace (snd (close world0 handle0 state_live)) @ [Kill 0 SIGKILL]
   \<and> fst (close world_spawn_throws handle0 state_live) = Rejected (ProcessSpawnError ''ELOOP'')
   \<and> trace (snd (close world_spawn_throws handle0 state_live)) = trace state_live @
       [Kill 0 SIGKILL, ExitEvent 0,
        Spawn ''/k/bin/kafka-server-stop.sh'' [] [(''JMX_PORT'', ''9999''), (''HOME'', ''/root'')] None]"
proof -
  let ?s1 = "snd (close world0 handle0 state_live)"
  let ?s2 = "snd (close world0 handle0 ?s1)"
  let ?s3 = "snd (close world_spawn_throws handle0 state_live)"
  have pr: "procs state_live = [Running]"
    by (simp add: state_live_def startKafkaProcess_procs eval_world)
  then have l: "live state_live (h_kafkaProcess handle0)"
    by (simp add: live_def handle0_def)
  have c1: "close world0 handle0 state_live = (fst (close world0 handle0 state_live), ?s1)"
    by simp
  have c2: "close world0 handle0 ?s1 = (fst (close world0 handle0 ?s1), ?s2)"
    by simp
  have c3: "close world_spawn_throws handle0 state_live
      = (fst (close world_spawn_throws handle0 state_live), ?s3)"
    by simp
  from close_is_ordered [OF c1] l
  have 1: "trace ?s1 = trace state_live @
              [Kill (h_kafkaProcess handle0) SIGKILL, ExitEvent (h_kafkaProcess handle0),
               Spawn (stop_script world0) [] (process_env world0) None]
              @ (case spawn_result world0 (stop_script world0) None of
                   Launched \<Rightarrow> [ExitEvent (length (procs state_live))]
                 | LaunchError err \<Rightarrow> [UncaughtError (length (procs state_live))]
                 | SpawnThrows err \<Rightarrow> [])"
    and 2: "fst (close world0 handle0 state_live)
              = (case spawn_result world0 (stop_script world0) None of
                      Launched \<Rightarrow> Resolved (script_exit world0 (stop_script world0))
                    | LaunchError err \<Rightarrow> Pending
                    | SpawnThrows err \<Rightarrow> Rejected (ProcessSpawnError err))"
    and 3: "\<not> live ?s1 (h_kafkaProcess handle0)"
    by blast+
  from close_is_ordered [OF c2] 3
  have 4: "trace ?s2 = trace ?s1 @ [Kill (h_kafkaProcess handle0) SIGKILL]"
    and 5: "fst (close world0 handle0 ?s1) = Pending"
    by blast+
  from close_is_ordered [OF c3] l
  have 6: "trace ?s3 = trace state_live @
              [Kill (h_kafkaProcess handle0) SIGKILL, ExitEvent (h_kafkaProcess handle0),
               Spawn (stop_script world_spawn_throws) [] (process_env world_spawn_throws) None]
              @ (case spawn_result world_spawn_throws (stop_script world_spawn_throws) None of
                   Launched \<Rightarrow> [ExitEvent (length (procs state_live))]
                 | LaunchError err \<Rightarrow> [UncaughtError (length (procs state_live))]
                 | SpawnThrows err \<Rightarrow> [])"
    and 7: "fst (close world_spawn_throws handle0 state_live)
              = (case spawn_result world_spawn_throws (stop_script world_spawn_throws) None of
                      Launched \<Rightarrow> Resolved (script_exit world_spawn_throws
                                                (stop_script world_spawn_throws))
                    | LaunchError err \<Rightarrow> Pending
                    | SpawnThrows err \<Rightarrow> Rejected (ProcessSpawnError err))"
    by blast+
  from 1 pr have t1: "trace ?s1 = trace state_live @
       [Kill 0 SIGKILL, ExitEvent 0,
        Spawn ''/k/bin/kafka-server-stop.sh'' [] [(''JMX_PORT'', ''9999''), (''HOME'', ''/root'')] None,
        ExitEvent 1]"
    by (simp add: eval_world handle0_def)
  from 2 have r1: "fst (close world0 handle0 state_live) = Resolved (Some 0)"
    by (simp add: eval_world)
  from 4 have t2: "trace ?s2 = trace ?s1 @ [Kill 0 SIGKILL]"
    by (simp add: handle0_def)
  from 6 have t3: "trace ?s3 = trace state_live @
       [Kill 0 SIGKILL, ExitEvent 0,
        Spawn ''/k/bin/kafka-server-stop.sh'' [] [(''JMX_PORT'', ''9999''), (''HOME'', ''/root'')] None]"
    by (simp add: eval_world handle0_def)
  from 7 have r3: "fst (close world_spawn_throws handle0 state_live)
      = Rejected (ProcessSpawnError ''ELOOP'')"
    by (simp add: eval_world)
  from l t1 r1 3 t2 5 t3 r3 show ?thesis by simp
qed

section \<open>The managers on the heap\<close>

lemma await_then_preserves:
  assumes "\<And>s. g (snd (m s)) = g s" and "\<And>x s. g (snd (f x s)) = g s"
  shows "g (snd (await_then m f s)) = g s"
proof (cases "m s")
  case (Pair r s1)
  from assms(1) [of s] Pair have h: "g s1 = g s" by simp
  show ?thesis
  proof (cases r)
    case (Resolved x)
    with Pair have "await_then m f s = f x s1" by (simp add: await_then_def)
    with assms(2) [of x s1] h show ?thesis by simp
  next
    case (Rejected e)
    with Pair h show ?thesis by (simp add: await_then_def)
  next
    case Pending
    with Pair h show ?thesis by (simp add: await_then_def)
  qed
qed

lemma decoder_write_length: "length (heap (decoder_write this d s)) = length (heap s)"
  by (simp add: decoder_write_def)

lemma decoder_write_takenPorts:
  "map takenPorts (heap (decoder_write this d s)) = map takenPorts (heap s)"
proof (rule nth_equalityI)
  show "length (map takenPorts (heap (decoder_write this d s))) = length (map takenPorts (heap s))"
    by (simp add: decoder_write_def)
next
  fix i assume "i < length (map takenPorts (heap (decoder_write this d s)))"
  then have i: "i < length (heap s)" by (simp add: decoder_write_def)
  then show "map takenPorts (heap (decoder_write this d s)) ! i = map takenPorts (heap s) ! i"
    by (cases "i = this") (simp_all add: decoder_write_def)
qed

lemma decoder_write_take:
  "take this (heap (decoder_write this d s)) = take this (heap s)"
  by (simp add: decoder_write_def)

lemma decoder_write_drop:
  "drop (Suc this) (heap (decoder_write this d s)) = drop (Suc this) (heap s)"
  by (simp add: decoder_write_def)

lemma on_data_eq: "on_data this s d = decoder_write this (snd d) s"
  by (cases d, cases "fst d") simp_all

lemma foldl_on_data_preserves:
  assumes "\<And>d s. g (decoder_write this d s) = g s"
  shows "g (foldl (on_data this) s ds) = g s"
proof (induction ds arbitrary: s)
  case Nil
  show ?case by simp
next
  case (Cons d ds)
  have "g (on_data this s d) = g s" by (simp add: on_data_eq assms)
  with Cons.IH [of "on_data this s d"] show ?case by simp
qed

lemma startKafkaProcess_preserves:
  assumes "\<And>d s. g (decoder_write this d s) = g s"
    and "\<And>s ps. g (s\<lparr>procs := ps\<rparr>) = g s"
    and "\<And>s tr. g (s\<lparr>trace := tr\<rparr>) = g s"
  shows "g (snd (startKafkaProcess w this kafkaDir kPort s)) = g s"
  by (simp add: startKafkaProcess_def Let_def assms foldl_on_data_preserves [of g, OF assms(1)]
        split: spawn_outcome.splits)

lemma startKafkaProcess_takenPorts:
  "map takenPorts (heap (snd (startKafkaProcess w this kafkaDir kPort s))) = map takenPorts (heap s)"
  by (rule startKafkaProcess_preserves [where g = "\<lambda>s. map takenPorts (heap s)"])
     (simp_all add: decoder_write_takenPorts)

lemma startKafkaProcess_take:
  "take this (heap (snd (startKafkaProcess w this kafkaDir kPort s))) = take this (heap s)"
  by (rule startKafkaProcess_preserves [where g = "\<lambda>s. take this (heap s)"])
     (simp_all add: decoder_write_take)

lemma startKafkaProcess_drop:
  "drop (Suc this) (heap (snd (startKafkaProcess w this kafkaDir kPort s)))
     = drop (Suc this) (heap s)"
  by (rule startKafkaProcess_preserves [where g = "\<lambda>s. drop (Suc this) (heap s)"])
     (simp_all add: decoder_write_drop)

lemma startKafkaProcess_length:
  "length (heap (snd (startKafkaProcess w this kafkaDir kPort s))) = length (heap s)"
  by (rule startKafkaProcess_preserves [where g = "\<lambda>s. length (heap s)"])
     (simp_all add: decoder_write_length)

lemma allocatePorts_heap: "heap (snd (allocatePorts w this s)) = heap s"
  by (simp add: allocatePorts_state)

lemma initializeStorage_heap: "heap (snd (initializeStorage w this f s)) = heap s"
  by (simp add: initializeStorage_state)

lemma startKafkaServer_preserves:
  assumes a: "\<And>s. g (snd (allocatePorts w this s)) = g s"
    and b: "\<And>p s. g (snd (createTempDirectory w this p s)) = g s"
    and c: "\<And>d cp kp s. g (snd (createKafkaConfig w this d cp kp s)) = g s"
    and d: "\<And>f s. g (snd (initializeStorage w this f s)) = g s"
    and e: "\<And>d kp s. g (snd (startKafkaProcess w this d kp s)) = g s"
  shows "g (snd (startKafkaServer w this s)) = g s"
  unfolding startKafkaServer_def try_catch_rethrow
  by (intro await_then_preserves a b c d e)

lemma portfinder_scan_heap: "portfinder_scan (s\<lparr>heap := hp\<rparr>) p = portfinder_scan s p"
proof (induction s p rule: portfinder_scan.induct)
  case (1 s p)
  show ?case
  proof (cases "highestPort < p \<or> bindable s p")
    case True
    then show ?thesis
      by (subst (1 2) portfinder_scan.simps) (auto simp: bindable_def)
  next
    case False
    with "1.IH" have "portfinder_scan (s\<lparr>heap := hp\<rparr>) (Suc p) = portfinder_scan s (Suc p)"
      by simp
    with False show ?thesis
      by (subst (1 2) portfinder_scan.simps) (simp add: bindable_def)
  qed
qed

lemma portfinder_scan_many_heap:
  "portfinder_scan_many (s\<lparr>heap := hp\<rparr>) n p = portfinder_scan_many s n p"
  by (induction n arbitrary: p) (auto simp: portfinder_scan_heap split: option.splits)

lemma allocatePorts_heap_indep:
  "allocatePorts w this (s\<lparr>heap := hp\<rparr>)
     = (fst (allocatePorts w this s), (snd (allocatePorts w this s))\<lparr>heap := hp\<rparr>)"
  by (simp add: allocatePorts_def portfinder_getPorts_def portfinder_scan_many_heap Let_def
        split: option.splits)

lemma createTempDirectory_heap_indep:
  "createTempDirectory w this p (s\<lparr>heap := hp\<rparr>)
     = (fst (createTempDirectory w this p s), (snd (createTempDirectory w this p s))\<lparr>heap := hp\<rparr>)"
  by (simp add: createTempDirectory_def Let_def split: sum.splits)

lemma createKafkaConfig_heap_indep:
  "createKafkaConfig w this d c k (s\<lparr>heap := hp\<rparr>)
     = (fst (createKafkaConfig w this d c k s), (snd (createKafkaConfig w this d c k s))\<lparr>heap := hp\<rparr>)"
  by (simp add: createKafkaConfig_def createEditor_def editor_save_def Let_def split: option.splits)

lemma initializeStorage_heap_indep:
  "initializeStorage w this f (s\<lparr>heap := hp\<rparr>)
     = (fst (initializeStorage w this f s), (snd (initializeStorage w this f s))\<lparr>heap := hp\<rparr>)"
  by (simp add: initializeStorage_run)

lemma startKafkaProcess_heap_indep:
  "fst (startKafkaProcess w this d k (s\<lparr>heap := hp\<rparr>)) = fst (startKafkaProcess w this d k s)"
  by (simp add: startKafkaProcess_result split: spawn_outcome.splits)

lemma await_then_heap_indep:
  assumes m: "\<And>s hp. m (s\<lparr>heap := hp\<rparr>) = (fst (m s), (snd (m s))\<lparr>heap := hp\<rparr>)"
    and f: "\<And>x s hp. fst (f x (s\<lparr>heap := hp\<rparr>)) = fst (f x s)"
  shows "fst (await_then m f (s\<lparr>heap := hp\<rparr>)) = fst (await_then m f s)"
proof (cases "m s")
  case (Pair r s1)
  with m [where s = s and hp = hp] have m': "m (s\<lparr>heap := hp\<rparr>) = (r, s1\<lparr>heap := hp\<rparr>)" by simp
  show ?thesis
  proof (cases r)
    case (Resolved x)
    with Pair m' f [where x = x and s = s1 and hp = hp] show ?thesis by (simp add: await_then_def)
  next
    case (Rejected e)
    with Pair m' show ?thesis by (simp add: await_then_def)
  next
    case Pending
    with Pair m' show ?thesis by (simp add: await_then_def)
  qed
qed

lemma startKafkaServer_heap_indep:
  "fst (startKafkaServer w this (s\<lparr>heap := hp\<rparr>)) = fst (startKafkaServer w this s)"
  unfolding startKafkaServer_def try_catch_rethrow
  by (intro await_then_heap_indep allocatePorts_heap_indep createTempDirectory_heap_indep
        createKafkaConfig_heap_indep initializeStorage_heap_indep startKafkaProcess_heap_indep)

lemma startKafkaServer_takenPorts:
  "map takenPorts (heap (snd (startKafkaServer w this s))) = map takenPorts (heap s)"
  by (rule startKafkaServer_preserves [where g = "\<lambda>s. map takenPorts (heap s)"])
     (simp_all add: allocatePorts_heap createTempDirectory_heap createKafkaConfig_heap
        initializeStorage_heap startKafkaProcess_takenPorts)

lemma startKafkaServer_take:
  "take this (heap (snd (startKafkaServer w this s))) = take this (heap s)"
  by (rule startKafkaServer_preserves [where g = "\<lambda>s. take this (heap s)"])
     (simp_all add: allocatePorts_heap createTempDirectory_heap createKafkaConfig_heap
        initializeStorage_heap startKafkaProcess_take)

lemma startKafkaServer_drop:
  "drop (Suc this) (heap (snd (startKafkaServer w this s))) = drop (Suc this) (heap s)"
  by (rule startKafkaServer_preserves [where g = "\<lambda>s. drop (Suc this) (heap s)"])
     (simp_all add: allocatePorts_heap createTempDirectory_heap createKafkaConfig_heap
        initializeStorage_heap startKafkaProcess_drop)

lemma startKafkaServer_length:
  "length (heap (snd (startKafkaServer w this s))) = length (heap s)"
  by (rule startKafkaServer_preserves [where g = "\<lambda>s. length (heap s)"])
     (simp_all add: allocatePorts_heap createTempDirectory_heap createKafkaConfig_heap
        initializeStorage_heap startKafkaProcess_length)

lemma makeKafkaServer_takenPorts:
  "map takenPorts (heap (snd (makeKafkaServer w s))) = map takenPorts (heap s) @ [[]]"
  unfolding makeKafkaServer_eq startKafkaServer_takenPorts
  by (simp add: new_KafkaManager_def)

lemma makeKafkaServer_length:
  "length (heap (snd (makeKafkaServer w s))) = Suc (length (heap s))"
  unfolding makeKafkaServer_eq startKafkaServer_length
  by (simp add: new_KafkaManager_def)

lemma makeKafkaServer_take:
  "take (length (heap s)) (heap (snd (makeKafkaServer w s))) = heap s"
  unfolding makeKafkaServer_eq startKafkaServer_take
  by (simp add: new_KafkaManager_def)

lemma makeKafkaServer_this:
  assumes "fst (makeKafkaServer w s) = Resolved h"
  shows "h_this h = length (heap s)"
proof -
  from assms have "makeKafkaServer w s = (Resolved h, snd (makeKafkaServer w s))"
    by (simp add: prod_eq_iff)
  then have "startKafkaServer w (length (heap s)) (snd (new_KafkaManager s))
      = (Resolved h, snd (makeKafkaServer w s))"
    by (simp add: makeKafkaServer_eq)
  from startKafkaServer_Resolved [OF this]
  obtain d k s4 where "startKafkaProcess w (length (heap s)) d k s4
      = (Resolved h, snd (makeKafkaServer w s))"
    by blast
  with startKafkaProcess_result [of w "length (heap s)" d k s4] show ?thesis
    by (auto split: spawn_outcome.splits)
qed

text \<open>
  C9. The factory adds one manager whose \<open>takenPorts\<close> is empty when the factory is
  done, and leaves the \<open>takenPorts\<close> of every manager as it was; so do \<open>close\<close> and the
  \<open>data\<close> listeners. The outcome of \<open>allocatePorts\<close> is the same whatever the managers
  hold: it does not read \<open>takenPorts\<close>.
\<close>

theorem takenPorts_stays_empty:
  "map takenPorts (heap (snd (makeKafkaServer w s))) = map takenPorts (heap s) @ [[]]
   \<and> takenPorts (heap (snd (makeKafkaServer w s)) ! length (heap s)) = []
   \<and> map takenPorts (heap (snd (close w h s))) = map takenPorts (heap s)
   \<and> map takenPorts (heap (on_data this s d)) = map takenPorts (heap s)
   \<and> fst (allocatePorts w this (s\<lparr>heap := hp\<rparr>)) = fst (allocatePorts w this s)"
proof (intro conjI)
  show m: "map takenPorts (heap (snd (makeKafkaServer w s))) = map takenPorts (heap s) @ [[]]"
    by (rule makeKafkaServer_takenPorts)
  have "map takenPorts (heap (snd (makeKafkaServer w s))) ! length (heap s) = []"
    unfolding m by (simp add: nth_append)
  then show "takenPorts (heap (snd (makeKafkaServer w s)) ! length (heap s)) = []"
    by (simp add: makeKafkaServer_length)
  show "map takenPorts (heap (snd (close w h s))) = map takenPorts (heap s)"
    by (simp add: close_heap)
  show "map takenPorts (heap (on_data this s d)) = map takenPorts (heap s)"
    by (simp add: on_data_eq decoder_write_takenPorts)
  show "fst (allocatePorts w this (s\<lparr>heap := hp\<rparr>)) = fst (allocatePorts w this s)"
    by (simp add: allocatePorts_heap_indep)
qed

text \<open>
  C10. The factory constructs a manager with an empty decoder and an empty \<open>takenPorts\<close>
  at a reference that was not in use, and runs \<open>startKafkaServer\<close> on it. The managers
  that existed are as they were when the factory is done, the handle closes over the new
  manager, and a later call of the factory leaves the manager of this call as it was.
  \<open>startKafkaServer\<close> changes no manager but its own, its outcome does not depend on what
  any manager holds, and \<open>close\<close> changes no manager. The same holds of each method and
  listener taken alone, so of any interleaving of two calls at their \<open>await\<close>s: the
  four provisioning steps change no manager, \<open>startKafkaProcess\<close> and the \<open>data\<close>
  listeners change only the manager they belong to.
\<close>

theorem makeKafkaServer_fresh_manager:
  "fst (new_KafkaManager s) = length (heap s)
   \<and> heap (snd (new_KafkaManager s)) = heap s @ [\<lparr>decoder = [], takenPorts = []\<rparr>]
   \<and> makeKafkaServer w s = startKafkaServer w (length (heap s)) (snd (new_KafkaManager s))
   \<and> length (heap (snd (makeKafkaServer w s))) = Suc (length (heap s))
   \<and> take (length (heap s)) (heap (snd (makeKafkaServer w s))) = heap s
   \<and> (\<forall>h. fst (makeKafkaServer w s) = Resolved h \<longrightarrow> h_this h = length (heap s))
   \<and> heap (snd (makeKafkaServer w' (snd (makeKafkaServer w s)))) ! length (heap s)
       = heap (snd (makeKafkaServer w s)) ! length (heap s)
   \<and> take this (heap (snd (startKafkaServer w this s))) = take this (heap s)
   \<and> drop (Suc this) (heap (snd (startKafkaServer w this s))) = drop (Suc this) (heap s)
   \<and> fst (startKafkaServer w this (s\<lparr>heap := hp\<rparr>)) = fst (startKafkaServer w this s)
   \<and> heap (snd (close w h0 s)) = heap s
   \<and> heap (snd (allocatePorts w this s)) = heap s
   \<and> heap (snd (createTempDirectory w this prefix s)) = heap s
   \<and> heap (snd (createKafkaConfig w this kafkaDir cPort kPort s)) = heap s
   \<and> heap (snd (initializeStorage w this propertiesFile s)) = heap s
   \<and> take this (heap (snd (startKafkaProcess w this kafkaDir kPort s))) = take this (heap s)
   \<and> drop (Suc this) (heap (snd (startKafkaProcess w this kafkaDir kPort s)))
       = drop (Suc this) (heap s)
   \<and> take this (heap (on_data this s d)) = take this (heap s)
   \<and> drop (Suc this) (heap (on_data this s d)) = drop (Suc this) (heap s)"
proof (intro conjI)
  show "fst (new_KafkaManager s) = length (heap s)"
    by (simp add: new_KafkaManager_def)
  show "heap (snd (new_KafkaManager s)) = heap s @ [\<lparr>decoder = [], takenPorts = []\<rparr>]"
    by (simp add: new_KafkaManager_def)
  show "makeKafkaServer w s = startKafkaServer w (length (heap s)) (snd (new_KafkaManager s))"
    by (rule makeKafkaServer_eq)
  show "length (heap (snd (makeKafkaServer w s))) = Suc (length (heap s))"
    by (rule makeKafkaServer_length)
  show "take (length (heap s)) (heap (snd (makeKafkaServer w s))) = heap s"
    by (rule makeKafkaServer_take)
  show "\<forall>h. fst (makeKafkaServer w s) = Resolved h \<longrightarrow> h_this h = length (heap s)"
    by (blast intro: makeKafkaServer_this)
  show "heap (snd (makeKafkaServer w' (snd (makeKafkaServer w s)))) ! length (heap s)
       = heap (snd (makeKafkaServer w s)) ! length (heap s)"
  proof -
    let ?s1 = "snd (makeKafkaServer w s)"
    have "take (length (heap ?s1)) (heap (snd (makeKafkaServer w' ?s1))) ! length (heap s)
        = heap ?s1 ! length (heap s)"
      by (simp only: makeKafkaServer_take)
    then show ?thesis by (simp add: makeKafkaServer_length)
  qed
  show "take this (heap (snd (startKafkaServer w this s))) = take this (heap s)"
    by (rule startKafkaServer_take)
  show "drop (Suc this) (heap (snd (startKafkaServer w this s))) = drop (Suc this) (heap s)"
    by (rule startKafkaServer_drop)
  show "fst (startKafkaServer w this (s\<lparr>heap := hp\<rparr>)) = fst (startKafkaServer w this s)"
    by (rule startKafkaServer_heap_indep)
  show "heap (snd (close w h0 s)) = heap s"
    by (rule close_heap)
  show "heap (snd (allocatePorts w this s)) = heap s"
    by (rule allocatePorts_heap)
  show "heap (snd (createTempDirectory w this prefix s)) = heap s"
    by (rule createTempDirectory_heap)
  show "heap (snd (createKafkaConfig w this kafkaDir cPort kPort s)) = heap s"
    by (rule createKafkaConfig_heap)
  show "heap (snd (initializeStorage w this propertiesFile s)) = heap s"
    by (rule initializeStorage_heap)
  show "take this (heap (snd (startKafkaProcess w this kafkaDir kPort s))) = take this (heap s)"
    by (rule startKafkaProcess_take)
  show "drop (Suc this) (heap (snd (startKafkaProcess w this kafkaDir kPort s)))
       = drop (Suc this) (heap s)"
    by (rule startKafkaProcess_drop)
  show "take this (heap (on_data this s d)) = take this (heap s)"
    by (simp add: on_data_eq decoder_write_take)
  show "drop (Suc this) (heap (on_data this s d)) = drop (Suc this) (heap s)"
    by (simp add: on_data_eq decoder_write_drop)
qed

theorem takenPorts_stays_empty_witness:
  "map takenPorts (heap (snd (makeKafkaServer world0 state0))) = [[]]
   \<and> map takenPorts (heap (snd (close world0 handle0 state_live))) = [[]]"
  using takenPorts_stays_empty [of world0 state0]
    takenPorts_stays_empty [of world0 state_live handle0]
  by (simp add: state0_def state_live_def startKafkaProcess_takenPorts state1_def
        new_KafkaManager_def)

theorem makeKafkaServer_fresh_manager_witness:
  "fst (makeKafkaServer world0 state0) = Resolved handle0
   \<and> h_this handle0 = length (heap state0)
   \<and> length (heap (snd (makeKafkaServer world0 state0))) = 1
   \<and> length (heap (snd (makeKafkaServer world0 (snd (makeKafkaServer world0 state0))))) = 2"
proof -
  from makeKafkaServer_fresh_manager [of state0 world0]
  have a: "\<forall>h. fst (makeKafkaServer world0 state0) = Resolved h \<longrightarrow> h_this h = length (heap state0)"
    and b: "length (heap (snd (makeKafkaServer world0 state0))) = Suc (length (heap state0))"
    by blast+
  from makeKafkaServer_fresh_manager [of "snd (makeKafkaServer world0 state0)" world0]
  have c: "length (heap (snd (makeKafkaServer world0 (snd (makeKafkaServer world0 state0)))))
      = Suc (length (heap (snd (makeKafkaServer world0 state0))))"
    by blast
  from a run0 have "h_this handle0 = length (heap state0)" by blast
  with run0 b c show ?thesis by (simp add: state0_def)
qed

end
